theory Spec2Isabelle
  imports Complex_Main "HOL-Library.List_Lexorder" "HOL-Library.Multiset"
begin

section \<open>The user profile\<close>

text \<open>
  The profile is the \<^verbatim>\<open>UserProfile\<close> type of the architecture document: a three-level
  tree of topics, subtopics and branches, each node carrying a weight and an optional
  \<^verbatim>\<open>lastViewed\<close> stamp, and a dictionary of interactions keyed by question id.
  JavaScript numbers that hold weights and scores are modelled as reals, time stamps as
  integers (milliseconds), objects used as dictionaries as partial maps from strings.
\<close>

record TopicBranch =
  weight :: real
  lastViewed :: "int option"

record SubTopic = TopicBranch +
  branches :: "string \<rightharpoonup> TopicBranch"

record RootTopic = TopicBranch +
  subtopics :: "string \<rightharpoonup> SubTopic"

text \<open>
  \<^verbatim>\<open>wasCorrect\<close> has three states in the score function, which tests it against
  \<^verbatim>\<open>undefined\<close> before it tests its truth: absent, \<^verbatim>\<open>null\<close>, or a boolean.
\<close>

datatype answer = Undefined | Null | Answered bool

record QuestionInteraction =
  wasCorrect :: answer
  wasSkipped :: bool
  timeSpent :: int
  viewedAt :: int

record UserProfile =
  topics :: "string \<rightharpoonup> RootTopic"
  interactions :: "string \<rightharpoonup> QuestionInteraction"
  lastRefreshed :: int
  coldStartComplete :: "bool option"
  totalQuestionsAnswered :: "nat option"

section \<open>The sync manager component\<close>

text \<open>
  \<^verbatim>\<open>SimplifiedSyncManager.tsx\<close>. The component's asynchronous functions are modelled
  by the list of calls they make on the store and on the sync service, in order
  (console output left out). The outcome of each awaited call is an argument.
\<close>

record User =
  user_id :: string

datatype 'a awaited = Thrown | Returned 'a

datatype effect =
    ResetModuleState
  | LogSyncStatus
  | LoadUserDataStart
  | LoadUserData string bool
  | FetchProfileWithDefaultCheck string UserProfile
  | LoadUserDataSuccess UserProfile int
  | SyncUserProfile string UserProfile
  | SetInitialDataLoaded bool
  | MarkInitialDataLoadComplete
  | SyncFailed

text \<open>
  \<^verbatim>\<open>loadInitialData\<close> (lines 131 to 235). \<^verbatim>\<open>hasAllDefaultWeights\<close> is imported from
  the sync service, which is not among the sources: it is the argument \<open>hadw\<close>.
  \<open>fetched\<close> is what \<^verbatim>\<open>loadUserData(user.id, true)\<close> does (a throw is caught by the
  inner \<^verbatim>\<open>try\<close> and leaves \<^verbatim>\<open>forceResult\<close> undefined), \<open>pushOk\<close> tells whether
  \<^verbatim>\<open>syncUserProfile\<close> returns (otherwise the outer \<^verbatim>\<open>catch\<close> dispatches
  \<^verbatim>\<open>syncFailed\<close>), \<open>now\<close> is \<^verbatim>\<open>Date.now()\<close>.
\<close>

definition loadInitialData ::
  "(UserProfile \<Rightarrow> bool) \<Rightarrow> User option \<Rightarrow> bool \<Rightarrow> UserProfile \<Rightarrow>
   UserProfile option awaited \<Rightarrow> bool \<Rightarrow> int \<Rightarrow> effect list" where
  "loadInitialData hadw user initialDataLoaded userProfile fetched pushOk now =
    (case user of
       None \<Rightarrow> []
     | Some u \<Rightarrow>
        if user_id u = [] \<or> initialDataLoaded then []
        else
          let forceResult = (case fetched of Thrown \<Rightarrow> None | Returned r \<Rightarrow> r);
              remoteProfile = forceResult;
              start = [ResetModuleState, LoadUserDataStart, LogSyncStatus,
                       LoadUserData (user_id u) True];
              profileToCheck = (case remoteProfile of Some r \<Rightarrow> r | None \<Rightarrow> userProfile);
              finish = [SetInitialDataLoaded True] @
                       (if \<not> hadw profileToCheck then [MarkInitialDataLoadComplete] else []) @
                       [LogSyncStatus];
              keepLocal =
                (if pushOk
                 then start @ [SyncUserProfile (user_id u) userProfile,
                               LoadUserDataSuccess userProfile now] @ finish
                 else start @ [SyncUserProfile (user_id u) userProfile, SyncFailed])
          in
            (case remoteProfile of
               Some r \<Rightarrow>
                 if lastRefreshed r > lastRefreshed userProfile
                 then start @ [LoadUserDataSuccess r now] @ finish
                 else
                   let localHasDefaultWeights = hadw userProfile;
                       remoteHasNonDefaultWeights = (\<not> hadw r)
                   in if localHasDefaultWeights \<and> remoteHasNonDefaultWeights
                      then start @ [LoadUserDataSuccess r now] @ finish
                      else keepLocal
             | None \<Rightarrow> keepLocal))"

text \<open>
  \<^verbatim>\<open>checkDefaultWeights\<close> (lines 63 to 99), which the component runs whenever
  \<^verbatim>\<open>initialDataLoaded\<close> is set and the user, the flag or the profile changes.
  \<open>writeOnly\<close> is what \<^verbatim>\<open>isWriteOnlyMode()\<close> returns.
\<close>

definition checkDefaultWeights ::
  "(UserProfile \<Rightarrow> bool) \<Rightarrow> User option \<Rightarrow> UserProfile \<Rightarrow>
   UserProfile option awaited \<Rightarrow> bool \<Rightarrow> int \<Rightarrow> effect list" where
  "checkDefaultWeights hadw user userProfile fetched writeOnly now =
    (case user of
       None \<Rightarrow> []
     | Some u \<Rightarrow>
        if user_id u = [] then []
        else if hadw userProfile then
          [FetchProfileWithDefaultCheck (user_id u) userProfile] @
          (case fetched of
             Thrown \<Rightarrow> []
           | Returned None \<Rightarrow> []
           | Returned (Some remoteProfile) \<Rightarrow>
               if \<not> hadw remoteProfile
               then [LoadUserDataSuccess remoteProfile now] @
                    (if \<not> writeOnly then [MarkInitialDataLoadComplete] else [])
               else [])
        else (if \<not> writeOnly then [MarkInitialDataLoadComplete] else []))"

text \<open>
  What a run leaves behind: the profiles handed to \<^verbatim>\<open>loadUserDataSuccess\<close> (the
  last one is the profile of the store afterwards), the profiles pushed, and whether
  the write-only flag was set.
\<close>

fun adopted :: "effect list \<Rightarrow> UserProfile list" where
  "adopted [] = []"
| "adopted (LoadUserDataSuccess p t # es) = p # adopted es"
| "adopted (e # es) = adopted es"

fun pushed :: "effect list \<Rightarrow> UserProfile list" where
  "pushed [] = []"
| "pushed (SyncUserProfile u p # es) = p # pushed es"
| "pushed (e # es) = pushed es"

definition entersWriteOnly :: "effect list \<Rightarrow> bool" where
  "entersWriteOnly es = (MarkInitialDataLoadComplete \<in> set es)"

definition completes :: "effect list \<Rightarrow> bool" where
  "completes es = (SetInitialDataLoaded True \<in> set es)"

text \<open>
  The profile of the store after a run: the last profile handed to
  \<^verbatim>\<open>loadUserDataSuccess\<close>, or the profile before the run when none was.
\<close>

definition resultingProfile :: "UserProfile \<Rightarrow> effect list \<Rightarrow> UserProfile" where
  "resultingProfile userProfile es =
    (case adopted es of [] \<Rightarrow> userProfile | p # ps \<Rightarrow> last (p # ps))"

text \<open>
  The initial load of the component. When \<^verbatim>\<open>loadInitialData\<close> has set
  \<^verbatim>\<open>initialDataLoaded\<close>, the effect of lines 121 to 126 runs
  \<^verbatim>\<open>checkDefaultWeights\<close> on the profile of the store; \<^verbatim>\<open>isWriteOnlyMode()\<close> is true
  there when \<^verbatim>\<open>markInitialDataLoadComplete\<close> has been called. \<open>refetched\<close> is what
  \<^verbatim>\<open>fetchProfileWithDefaultCheck\<close> does, \<open>later\<close> the time of that pass. When the
  load does not complete, the flag is not set and the pass does not run.
\<close>

definition initialLoad ::
  "(UserProfile \<Rightarrow> bool) \<Rightarrow> User option \<Rightarrow> UserProfile \<Rightarrow> UserProfile option awaited \<Rightarrow>
   bool \<Rightarrow> int \<Rightarrow> UserProfile option awaited \<Rightarrow> int \<Rightarrow> effect list" where
  "initialLoad hadw user userProfile fetched pushOk now refetched later =
    (let es = loadInitialData hadw user False userProfile fetched pushOk now
     in if completes es
        then es @ checkDefaultWeights hadw user (resultingProfile userProfile es) refetched
                    (entersWriteOnly es) later
        else es)"

text \<open>
  The default weight of a node. The architecture document names the constant
  \<^verbatim>\<open>DEFAULT_TOPIC_WEIGHT\<close> (line 1039) and gives the initial weights as 0.5.
\<close>

definition DEFAULT_TOPIC_WEIGHT :: real where
  "DEFAULT_TOPIC_WEIGHT = 0.5"

text \<open>
  Modelled from the spec: \<^verbatim>\<open>hasAllDefaultWeights\<close> of
  \<^verbatim>\<open>simplifiedSyncService.ts\<close> is not among the sources. The spec's words are
  "all topic weights are at the default sentinel". It is used for concrete inputs
  only; the theorems about the component hold for every predicate.
\<close>

definition hasAllDefaultWeights :: "UserProfile \<Rightarrow> bool" where
  "hasAllDefaultWeights p = (\<forall>t rt. topics p t = Some rt \<longrightarrow> weight rt = DEFAULT_TOPIC_WEIGHT)"

text \<open>Sample inputs: a signed-in user and profiles with the one topic Science.\<close>

definition sampleUser :: User where
  "sampleUser = \<lparr>user_id = ''u1''\<rparr>"

definition topicAt :: "real \<Rightarrow> RootTopic" where
  "topicAt w = \<lparr>weight = w, lastViewed = None, subtopics = Map.empty\<rparr>"

definition profileAt :: "real \<Rightarrow> int \<Rightarrow> UserProfile" where
  "profileAt w t = \<lparr>topics = [''Science'' \<mapsto> topicAt w], interactions = Map.empty,
     lastRefreshed = t, coldStartComplete = None, totalQuestionsAnswered = None\<rparr>"

section \<open>Strings\<close>

text \<open>
  A JavaScript string is the list of its UTF-16 code units, each a natural number
  (below 65536 in a well-formed string). \<open>js\<close> turns a literal of ASCII characters
  into its code units. Names that the program only uses as keys of a dictionary
  (topic names, question ids, user ids) stay of type \<open>string\<close>.
\<close>

type_synonym jsstring = "nat list"

definition js :: "string \<Rightarrow> jsstring" where
  "js s = map of_char s"

text \<open>
  \<^verbatim>\<open>String.prototype.toLowerCase\<close>, one code unit at a time: the letters A to Z, the
  capital letters of the Latin-1 range (U+00C0 to U+00DE without the multiplication
  sign), and the two characters outside ASCII whose lower-case form has an ASCII
  letter: U+0130 (capital I with dot above) becomes i followed by U+0307, and U+212A
  (the Kelvin sign) becomes k. Every other character is left as it is. For the cased
  letters beyond Latin-1 (Greek, Cyrillic and so on) the program's result is another
  one: there both the character and its lower-case form consist of code units that
  are neither ASCII nor whitespace, so that the program and the model agree on every
  ASCII and whitespace code unit of the result and on the positions of the others.
\<close>

definition toLowerUnit :: "nat \<Rightarrow> jsstring" where
  "toLowerUnit c =
    (if (65 \<le> c \<and> c \<le> 90) \<or> (192 \<le> c \<and> c \<le> 222 \<and> c \<noteq> 215) then [c + 32]
     else if c = 0x130 then [0x69, 0x307]
     else if c = 0x212A then [0x6B]
     else [c])"

definition toLowerCase :: "jsstring \<Rightarrow> jsstring" where
  "toLowerCase s = concat (map toLowerUnit s)"

text \<open>
  \<^verbatim>\<open>String.prototype.includes\<close>: the test for a contiguous substring. A string is
  truthy when it is present and not empty.
\<close>

fun startsWith :: "jsstring \<Rightarrow> jsstring \<Rightarrow> bool" where
  "startsWith s [] = True"
| "startsWith [] (d # t) = False"
| "startsWith (c # s) (d # t) = (c = d \<and> startsWith s t)"

fun str_includes :: "jsstring \<Rightarrow> jsstring \<Rightarrow> bool" where
  "str_includes [] t = (t = [])"
| "str_includes (c # s) t = (startsWith (c # s) t \<or> str_includes s t)"

definition truthy :: "jsstring option \<Rightarrow> bool" where
  "truthy v = (case v of None \<Rightarrow> False | Some s \<Rightarrow> s \<noteq> [])"

section \<open>Topic colours\<close>

text \<open>
  The table \<^verbatim>\<open>topicColors\<close> of the design module, in the order of its keys, and
  the hard-coded table of the design-system hook.
\<close>

definition topicColors :: "(jsstring \<times> jsstring) list" where
  "topicColors =
   [(js ''Music'', js ''#6200EA''),
    (js ''Entertainment'', js ''#FF4081''),
    (js ''Science'', js ''#00B8D4''),
    (js ''History'', js ''#D500F9''),
    (js ''Pop Culture'', js ''#FFD600''),
    (js ''Miscellaneous'', js ''#FF9800''),
    (js ''Literature'', js ''#D50000''),
    (js ''Technology'', js ''#304FFE''),
    (js ''Arts'', js ''#F50057''),
    (js ''Culture'', js ''#9C27B0''),
    (js ''Politics'', js ''#651FFF''),
    (js ''Geography'', js ''#00C853''),
    (js ''Chemistry'', js ''#00BCD4''),
    (js ''Countries'', js ''#3F51B5''),
    (js ''Nature'', js ''#64DD17''),
    (js ''Biology'', js ''#00C853''),
    (js ''Physics'', js ''#FFD600''),
    (js ''Environment'', js ''#4CAF50''),
    (js ''Ancient History'', js ''#9C27B0''),
    (js ''Language'', js ''#2962FF''),
    (js ''Modern History'', js ''#7E57C2''),
    (js ''Sports'', js ''#FF6D00''),
    (js ''Art'', js ''#F50057''),
    (js ''Astronomy'', js ''#673AB7''),
    (js ''Engineering'', js ''#FF5722''),
    (js ''Mathematics'', js ''#00BFA5''),
    (js ''General Knowledge'', js ''#00BFA5''),
    (js ''Food and Drink'', js ''#FF3D00''),
    (js ''Computers'', js ''#0288D1''),
    (js ''Math'', js ''#00BFA5''),
    (js ''Food'', js ''#FF3D00''),
    (js ''Modern Cinema'', js ''#C51162''),
    (js ''Mythology'', js ''#AA00FF''),
    (js ''Animals'', js ''#76FF03''),
    (js ''Movies'', js ''#673AB7''),
    (js ''default'', js ''#455A64'')]"

definition defaultTopicColors :: "(jsstring \<times> jsstring) list" where
  "defaultTopicColors =
   [(js ''Music'', js ''#6200EA''),
    (js ''Entertainment'', js ''#FF4081''),
    (js ''Science'', js ''#00B8D4''),
    (js ''History'', js ''#D500F9''),
    (js ''Pop Culture'', js ''#FFD600''),
    (js ''Miscellaneous'', js ''#FF9800''),
    (js ''default'', js ''#455A64'')]"

text \<open>
  The partial match both functions compute: the first key, in the table's order, that
  contains the category or is contained in it, both in lower case.
\<close>

definition partialMatchIn :: "(jsstring \<times> jsstring) list \<Rightarrow> jsstring \<Rightarrow> jsstring option" where
  "partialMatchIn table category =
     List.find (\<lambda>key. str_includes (toLowerCase category) (toLowerCase key) \<or>
                       str_includes (toLowerCase key) (toLowerCase category))
       (map fst table)"

text \<open>
  \<^verbatim>\<open>getTopicColor\<close> of the design module: a truthy direct lookup, the partial match,
  then \<^verbatim>\<open>topicColors.default\<close>. The result \<open>None\<close> is \<^verbatim>\<open>undefined\<close>.
  Properties inherited from \<^verbatim>\<open>Object.prototype\<close> are not keys of the model.
\<close>

definition design_getTopicColor :: "jsstring \<Rightarrow> jsstring option" where
  "design_getTopicColor category =
    (if truthy (map_of topicColors category) then map_of topicColors category
     else
       let partialMatch = partialMatchIn topicColors category
       in if truthy partialMatch then map_of topicColors (the partialMatch)
          else map_of topicColors (js ''default''))"

text \<open>
  \<^verbatim>\<open>getTopicColor\<close> of the design-system hook. \<open>imported\<close> is the imported table,
  \<open>None\<close> when the import did not yield an object; the hook of the repository
  imports \<^verbatim>\<open>topicColors\<close> from the design module.
\<close>

definition hook_getTopicColor :: "(jsstring \<times> jsstring) list option \<Rightarrow> jsstring \<Rightarrow> jsstring option" where
  "hook_getTopicColor imported category =
    (case imported of
       Some table \<Rightarrow>
         if category \<in> fst ` set table then map_of table category
         else
           let partialMatch = partialMatchIn table category
           in if truthy partialMatch then map_of table (the partialMatch)
              else if truthy (map_of table (js ''default'')) then map_of table (js ''default'')
              else Some (js ''#455A64'')
     | None \<Rightarrow>
         if truthy (map_of defaultTopicColors category) then map_of defaultTopicColors category
         else
           let partialMatch = partialMatchIn defaultTopicColors category
           in if truthy partialMatch then map_of defaultTopicColors (the partialMatch)
              else map_of defaultTopicColors (js ''default''))"

definition useDesignSystem_getTopicColor :: "jsstring \<Rightarrow> jsstring option" where
  "useDesignSystem_getTopicColor category = hook_getTopicColor (Some topicColors) category"

section \<open>The question fingerprint\<close>

text \<open>
  \<^verbatim>\<open>generateQuestionFingerprint\<close> of \<^verbatim>\<open>openaiService.ts\<close> (lines 520 to 533).
  The classes of the regular expressions: \<^verbatim>\<open>\w\<close> is a letter of A to Z in either
  case, a digit or the underscore; \<^verbatim>\<open>\s\<close> is the tab, the line feed, the vertical
  tab, the form feed, the carriage return, the space, the no-break space, U+1680,
  U+2000 to U+200A, U+2028, U+2029, U+202F, U+205F, U+3000 and U+FEFF, which are also
  what \<^verbatim>\<open>trim\<close> removes.
\<close>

definition isWordChar :: "nat \<Rightarrow> bool" where
  "isWordChar c =
    ((48 \<le> c \<and> c \<le> 57) \<or> (65 \<le> c \<and> c \<le> 90) \<or> c = 95 \<or> (97 \<le> c \<and> c \<le> 122))"

definition isSpaceChar :: "nat \<Rightarrow> bool" where
  "isSpaceChar c =
    ((9 \<le> c \<and> c \<le> 13) \<or> c = 32 \<or> c = 160 \<or> c = 0x1680 \<or>
     (0x2000 \<le> c \<and> c \<le> 0x200A) \<or> c = 0x2028 \<or> c = 0x2029 \<or> c = 0x202F \<or>
     c = 0x205F \<or> c = 0x3000 \<or> c = 0xFEFF)"

text \<open>\<^verbatim>\<open>.replace(/[^\w\s]/g, '')\<close>\<close>

definition removePunctuation :: "jsstring \<Rightarrow> jsstring" where
  "removePunctuation s = filter (\<lambda>c. isWordChar c \<or> isSpaceChar c) s"

text \<open>
  \<^verbatim>\<open>.replace(/\s+/g, ' ')\<close>: every maximal run of whitespace becomes one space
  (code unit 32).
\<close>

function collapseWhitespace :: "jsstring \<Rightarrow> jsstring" where
  "collapseWhitespace [] = []"
| "collapseWhitespace (c # cs) =
     (if isSpaceChar c then 32 # collapseWhitespace (dropWhile isSpaceChar cs)
      else c # collapseWhitespace cs)"
  by pat_completeness auto
termination
  by (relation "measure length") (auto simp: length_dropWhile_le less_Suc_eq_le)

definition trim :: "jsstring \<Rightarrow> jsstring" where
  "trim s = rev (dropWhile isSpaceChar (rev (dropWhile isSpaceChar s)))"

text \<open>\<^verbatim>\<open>Array.prototype.join\<close> on an array of strings.\<close>

fun join :: "jsstring \<Rightarrow> jsstring list \<Rightarrow> jsstring" where
  "join sep [] = []"
| "join sep [x] = x"
| "join sep (x # y # ys) = x @ sep @ join sep (y # ys)"

text \<open>
  The normalisation of a question text, in the order of the source: lower case first,
  then the removal of what is neither a word character nor whitespace, then the
  whitespace runs, then \<^verbatim>\<open>trim\<close>.
\<close>

definition normalizeQuestion :: "jsstring \<Rightarrow> jsstring" where
  "normalizeQuestion question =
     trim (collapseWhitespace (removePunctuation (toLowerCase question)))"

text \<open>
  The default \<^verbatim>\<open>sort()\<close> orders strings by their code units, lexicographically,
  which is the order of \<open>sort\<close> on lists of naturals here. The tags are sorted before
  the joined string is put in lower case, as in the source.
\<close>

definition generateQuestionFingerprint :: "jsstring \<Rightarrow> jsstring list \<Rightarrow> jsstring" where
  "generateQuestionFingerprint question tags =
    (let normalizedQuestion = normalizeQuestion question;
         normalizedTags = toLowerCase (join (js ''|'') (sort tags))
     in normalizedQuestion @ js ''|'' @ normalizedTags)"

text \<open>
  Punctuation, in the sense of the source's regular expression: a character that is
  neither a word character nor whitespace. Two of these characters, U+0130 and U+212A,
  are turned into ASCII letters by \<^verbatim>\<open>toLowerCase\<close> before the punctuation is removed.
\<close>

definition isPunctuation :: "nat \<Rightarrow> bool" where
  "isPunctuation c = (\<not> isWordChar c \<and> \<not> isSpaceChar c)"

definition lowersToLetter :: "nat \<Rightarrow> bool" where
  "lowersToLetter c = (c = 0x130 \<or> c = 0x212A)"

text \<open>
  Two question texts that differ only in letter case, in punctuation other than those
  two characters, or in runs of whitespace: the relation generated by changing the
  case of one letter, adding or removing one such punctuation character, and replacing
  one run of whitespace by another.
\<close>

inductive variant :: "jsstring \<Rightarrow> jsstring \<Rightarrow> bool" where
  same: "variant q q"
| letter_case: "toLowerUnit c = toLowerUnit d \<Longrightarrow> variant (xs @ c # ys) (xs @ d # ys)"
| punctuation_added:
    "isPunctuation c \<Longrightarrow> \<not> lowersToLetter c \<Longrightarrow> variant (xs @ ys) (xs @ c # ys)"
| punctuation_removed:
    "isPunctuation c \<Longrightarrow> \<not> lowersToLetter c \<Longrightarrow> variant (xs @ c # ys) (xs @ ys)"
| whitespace_run:
    "r \<noteq> [] \<Longrightarrow> r' \<noteq> [] \<Longrightarrow> list_all isSpaceChar r \<Longrightarrow> list_all isSpaceChar r' \<Longrightarrow>
     variant (xs @ r @ ys) (xs @ r' @ ys)"
| chain: "variant a b \<Longrightarrow> variant b c \<Longrightarrow> variant a c"

section \<open>Looking a question up in the store\<close>

text \<open>
  \<^verbatim>\<open>checkQuestionExists\<close>, \<^verbatim>\<open>checkQuestionSimilarity\<close> and
  \<^verbatim>\<open>fallbackQuestionCheck\<close> of \<^verbatim>\<open>openaiService.ts\<close> (lines 760 to 931). The
  store is given by what its three queries do: each throws or returns a pair of data
  and error. Each function is a \<^verbatim>\<open>try\<close> block (the definition named
  \<open>_try\<close>, which can throw) inside a \<^verbatim>\<open>catch\<close> that returns false.
\<close>

text \<open>\<^verbatim>\<open>String.prototype.split\<close> with a separator of one character.\<close>

fun splitOn :: "nat \<Rightarrow> jsstring \<Rightarrow> jsstring list" where
  "splitOn sep [] = [[]]"
| "splitOn sep (c # cs) =
     (if c = sep then [] # splitOn sep cs
      else (case splitOn sep cs of [] \<Rightarrow> [[c]] | w # ws \<Rightarrow> (c # w) # ws))"

text \<open>\<^verbatim>\<open>fingerprint.split('|')[0]\<close> (code unit 124 is the vertical bar).\<close>

definition questionPart :: "jsstring \<Rightarrow> jsstring" where
  "questionPart fingerprint = (case splitOn 124 fingerprint of [] \<Rightarrow> [] | w # ws \<Rightarrow> w)"

text \<open>
  The error object of a query, the pair \<^verbatim>\<open>{ data, error }\<close> a query resolves
  to (either may be null), a row of \<^verbatim>\<open>trivia_questions\<close> with the columns the
  queries select, and the three queries of the functions: by fingerprint, all rows,
  and ten rows.
\<close>

record PostgrestError =
  message :: jsstring

record 'a QueryResult =
  q_data :: "'a option"
  q_error :: "PostgrestError option"

record StoredQuestion =
  row_id :: jsstring
  question_text :: "jsstring option"
  row_fingerprint :: "jsstring option"

record Supabase =
  selectIdByFingerprint :: "jsstring \<Rightarrow> jsstring list QueryResult awaited"
  selectAllQuestions :: "StoredQuestion list QueryResult awaited"
  selectTenQuestions :: "StoredQuestion list QueryResult awaited"

text \<open>The text \<^verbatim>\<open>column "fingerprint" does not exist\<close> (code unit 34 is the double quote).\<close>

definition missingColumnMessage :: jsstring where
  "missingColumnMessage = js ''column '' @ [34] @ js ''fingerprint'' @ [34] @ js '' does not exist''"

text \<open>
  The number of words of either question that the other does not have, the words of
  each (split at the space, code unit 32) taken as a set.
\<close>

definition wordDifference :: "jsstring \<Rightarrow> jsstring \<Rightarrow> nat" where
  "wordDifference normalizedQuestion storedNormalized =
    (let questionWords = remdups (splitOn 32 normalizedQuestion);
         storedWords = remdups (splitOn 32 storedNormalized);
         uniqueToNew = filter (\<lambda>word. word \<notin> set storedWords) questionWords;
         uniqueToStored = filter (\<lambda>word. word \<notin> set questionWords) storedWords
     in length uniqueToNew + length uniqueToStored)"

text \<open>
  The body of the loop of \<^verbatim>\<open>checkQuestionSimilarity\<close> for one stored question.
  \<open>semantic\<close> stands for the score
  \<^verbatim>\<open>calculateFingerprintSimilarity(generateEnhancedFingerprint(..), generateEnhancedFingerprint(..))\<close>
  of the new question and the stored text, \<open>None\<close> when computing it throws (the
  inner \<^verbatim>\<open>try\<close> swallows that); the results below hold for every such function.
\<close>

definition similarStored :: "(jsstring \<Rightarrow> jsstring \<Rightarrow> real option) \<Rightarrow> jsstring \<Rightarrow> StoredQuestion \<Rightarrow> bool" where
  "similarStored semantic normalizedQuestion question =
    (case question_text question of
       None \<Rightarrow> False
     | Some text \<Rightarrow>
         if text = [] then False
         else
           let storedNormalized =
                 (if truthy (row_fingerprint question)
                  then questionPart (the (row_fingerprint question))
                  else normalizeQuestion text)
           in if wordDifference normalizedQuestion storedNormalized \<le> 3 then True
              else (case semantic normalizedQuestion text of
                      None \<Rightarrow> False
                    | Some semanticSimilarity \<Rightarrow> semanticSimilarity > 0.75))"

fun similarityLoop :: "(jsstring \<Rightarrow> jsstring \<Rightarrow> real option) \<Rightarrow> jsstring \<Rightarrow> StoredQuestion list \<Rightarrow> bool" where
  "similarityLoop semantic normalizedQuestion [] = False"
| "similarityLoop semantic normalizedQuestion (question # questions) =
     (if similarStored semantic normalizedQuestion question then True
      else similarityLoop semantic normalizedQuestion questions)"

definition checkQuestionSimilarity_try ::
  "(jsstring \<Rightarrow> jsstring \<Rightarrow> real option) \<Rightarrow> Supabase \<Rightarrow> jsstring \<Rightarrow> bool awaited" where
  "checkQuestionSimilarity_try semantic supabase fingerprint =
    (let normalizedQuestion = questionPart fingerprint
     in case selectAllQuestions supabase of
          Thrown \<Rightarrow> Thrown
        | Returned result \<Rightarrow>
            (case q_error result of
               Some error \<Rightarrow> Returned False
             | None \<Rightarrow>
                 (case q_data result of
                    None \<Rightarrow> Returned False
                  | Some questions \<Rightarrow>
                      Returned (questions \<noteq> [] \<and>
                                similarityLoop semantic normalizedQuestion questions))))"

definition checkQuestionSimilarity ::
  "(jsstring \<Rightarrow> jsstring \<Rightarrow> real option) \<Rightarrow> Supabase \<Rightarrow> jsstring \<Rightarrow> bool awaited" where
  "checkQuestionSimilarity semantic supabase fingerprint =
    (case checkQuestionSimilarity_try semantic supabase fingerprint of
       Thrown \<Rightarrow> Returned False
     | Returned b \<Rightarrow> Returned b)"

text \<open>The body of the loop of \<^verbatim>\<open>fallbackQuestionCheck\<close> for one stored question.\<close>

definition textMatches :: "jsstring \<Rightarrow> StoredQuestion \<Rightarrow> bool" where
  "textMatches normalizedQuestion question =
    (case question_text question of
       None \<Rightarrow> False
     | Some text \<Rightarrow>
         if text = [] then False
         else
           let storedNormalized = normalizeQuestion text
           in storedNormalized = normalizedQuestion \<or>
              str_includes storedNormalized normalizedQuestion \<or>
              str_includes normalizedQuestion storedNormalized)"

fun fallbackLoop :: "jsstring \<Rightarrow> StoredQuestion list \<Rightarrow> bool" where
  "fallbackLoop normalizedQuestion [] = False"
| "fallbackLoop normalizedQuestion (question # questions) =
     (if textMatches normalizedQuestion question then True
      else fallbackLoop normalizedQuestion questions)"

definition fallbackQuestionCheck_try :: "Supabase \<Rightarrow> jsstring \<Rightarrow> bool awaited" where
  "fallbackQuestionCheck_try supabase fingerprint =
    (let normalizedQuestion = questionPart fingerprint
     in case selectTenQuestions supabase of
          Thrown \<Rightarrow> Thrown
        | Returned result \<Rightarrow>
            (case q_error result of
               Some error \<Rightarrow> Returned False
             | None \<Rightarrow>
                 (case q_data result of
                    None \<Rightarrow> Returned False
                  | Some questions \<Rightarrow>
                      Returned (questions \<noteq> [] \<and> fallbackLoop normalizedQuestion questions))))"

definition fallbackQuestionCheck :: "Supabase \<Rightarrow> jsstring \<Rightarrow> bool awaited" where
  "fallbackQuestionCheck supabase fingerprint =
    (case fallbackQuestionCheck_try supabase fingerprint of
       Thrown \<Rightarrow> Returned False
     | Returned b \<Rightarrow> Returned b)"

text \<open>
  \<^verbatim>\<open>checkQuestionExists\<close> returns the promises of the two helpers without awaiting
  them, so its \<^verbatim>\<open>catch\<close> sees what the \<^verbatim>\<open>try\<close> block itself throws, not a
  rejection of a returned promise: the \<^verbatim>\<open>try\<close> block yields the promise it returns.
\<close>

definition checkQuestionExists_try ::
  "(jsstring \<Rightarrow> jsstring \<Rightarrow> real option) \<Rightarrow> Supabase \<Rightarrow> jsstring \<Rightarrow> bool awaited awaited" where
  "checkQuestionExists_try semantic supabase fingerprint =
    (case selectIdByFingerprint supabase fingerprint of
       Thrown \<Rightarrow> Thrown
     | Returned result \<Rightarrow>
         (case q_error result of
            Some fingerprintError \<Rightarrow>
              if str_includes (message fingerprintError) missingColumnMessage
              then Returned (fallbackQuestionCheck supabase fingerprint)
              else Thrown
          | None \<Rightarrow>
              (case q_data result of
                 Some (x # xs) \<Rightarrow> Returned (Returned True)
               | _ \<Rightarrow> Returned (checkQuestionSimilarity semantic supabase fingerprint))))"

definition checkQuestionExists ::
  "(jsstring \<Rightarrow> jsstring \<Rightarrow> real option) \<Rightarrow> Supabase \<Rightarrow> jsstring \<Rightarrow> bool awaited" where
  "checkQuestionExists semantic supabase fingerprint =
    (case checkQuestionExists_try semantic supabase fingerprint of
       Thrown \<Rightarrow> Returned False
     | Returned promise \<Rightarrow> promise)"

text \<open>
  What the function can find: a row with the fingerprint, a stored question that the
  similarity check accepts, or, on the fallback path, a stored question whose text
  matches. And the failure of the first query with an error that is not the missing
  column.
\<close>

definition exactMatch :: "Supabase \<Rightarrow> jsstring \<Rightarrow> bool" where
  "exactMatch supabase fingerprint =
    (\<exists>ids. selectIdByFingerprint supabase fingerprint =
             Returned \<lparr>q_data = Some ids, q_error = None\<rparr> \<and> ids \<noteq> [])"

definition similarFound :: "(jsstring \<Rightarrow> jsstring \<Rightarrow> real option) \<Rightarrow> Supabase \<Rightarrow> jsstring \<Rightarrow> bool" where
  "similarFound semantic supabase fingerprint =
    (\<exists>questions question. selectAllQuestions supabase =
             Returned \<lparr>q_data = Some questions, q_error = None\<rparr> \<and>
        question \<in> set questions \<and> similarStored semantic (questionPart fingerprint) question)"

definition fallbackFound :: "Supabase \<Rightarrow> jsstring \<Rightarrow> bool" where
  "fallbackFound supabase fingerprint =
    (\<exists>questions question. selectTenQuestions supabase =
             Returned \<lparr>q_data = Some questions, q_error = None\<rparr> \<and>
        question \<in> set questions \<and> textMatches (questionPart fingerprint) question)"

definition queryFailed :: "Supabase \<Rightarrow> jsstring \<Rightarrow> bool" where
  "queryFailed supabase fingerprint =
    (case selectIdByFingerprint supabase fingerprint of
       Thrown \<Rightarrow> True
     | Returned result \<Rightarrow>
         (case q_error result of
            None \<Rightarrow> False
          | Some fingerprintError \<Rightarrow>
              \<not> str_includes (message fingerprintError) missingColumnMessage))"

text \<open>Sample stores: one whose first query reports an error, one that has the fingerprint.\<close>

definition failingStore :: Supabase where
  "failingStore =
    \<lparr>selectIdByFingerprint = (\<lambda>fp. Returned \<lparr>q_data = None, q_error = Some \<lparr>message = js ''timeout''\<rparr>\<rparr>),
     selectAllQuestions = Thrown, selectTenQuestions = Thrown\<rparr>"

definition matchingStore :: Supabase where
  "matchingStore =
    \<lparr>selectIdByFingerprint = (\<lambda>fp. Returned \<lparr>q_data = Some [js ''q1''], q_error = None\<rparr>),
     selectAllQuestions = Thrown, selectTenQuestions = Thrown\<rparr>"

section \<open>Scoring\<close>

text \<open>
  \<^verbatim>\<open>calculateQuestionScore\<close> as the architecture document quotes it (lines 649 to
  691). The question carries its id and its topic, subtopic and branch labels.
  \<^verbatim>\<open>x || 0.5\<close> replaces an absent weight, and also a weight that is zero. The quoted
  function reads the identifiers \<^verbatim>\<open>subtopic\<close> and \<^verbatim>\<open>branch\<close> (lines 655 and
  656), which it does not declare: evaluating them throws a \<^verbatim>\<open>ReferenceError\<close>. That
  happens exactly when the profile has the question's topic; when it has not, the
  optional chain \<^verbatim>\<open>topics[question.topic]?.subtopics[subtopic]\<close> stops before the
  identifier is read, and both weights take the default. \<open>now\<close> is what
  \<^verbatim>\<open>Date.now()\<close> returns. The function returns the score with a list of
  explanations that it never fills; the model returns the score. The arithmetic of the
  model is exact where the program rounds to doubles: a value of the model is the
  program's value up to that rounding.
\<close>

record FeedItem =
  item_id :: string
  topic :: string
  subtopic :: string
  branch :: string

datatype js_error = ReferenceError

definition orDefault :: "real \<Rightarrow> real" where
  "orDefault w = (if w = 0 then 0.5 else w)"

definition calculateQuestionScore :: "int \<Rightarrow> FeedItem \<Rightarrow> UserProfile \<Rightarrow> js_error + real" where
  "calculateQuestionScore now question userProfile =
    (let topicWeight =
           (case topics userProfile (topic question) of
              None \<Rightarrow> 0.5
            | Some t \<Rightarrow> orDefault (weight t))
     in case topics userProfile (topic question) of
          Some t \<Rightarrow> Inl ReferenceError
        | None \<Rightarrow>
            let subtopicWeight = 0.5;
                branchWeight = 0.5;
                topicAffinity = (topicWeight + subtopicWeight + branchWeight) / 3;
                score = topicAffinity * 0.3
            in case interactions userProfile (item_id question) of
                 Some interaction \<Rightarrow>
                   let score = score +
                         (case wasCorrect interaction of
                            Undefined \<Rightarrow> 0
                          | Null \<Rightarrow> - 0.25
                          | Answered correct \<Rightarrow> (if correct then 0.25 else - 0.25));
                       score = score +
                         (if timeSpent interaction < 3000 then 0.15
                          else if timeSpent interaction > 15000 then - 0.15 else 0);
                       score = score + (if wasSkipped interaction then - 0.2 else 0);
                       daysSinceLastView =
                         real_of_int (now - viewedAt interaction) / (1000 * 60 * 60 * 24);
                       cooldownBonus = min (daysSinceLastView * 0.1) 0.5
                   in Inr (score + cooldownBonus)
               | None \<Rightarrow> Inr (score + 0.15))"

text \<open>
  The score as the specification words it, for comparison with the function above:
  0.30 times the mean of the three weights, each 0.5 when unseen, plus the interaction
  term, plus the novelty term.
\<close>

definition weightOrDefault :: "'a TopicBranch_scheme option \<Rightarrow> real" where
  "weightOrDefault node = (case node of None \<Rightarrow> 0.5 | Some n \<Rightarrow> weight n)"

definition topicAffinity_spec :: "FeedItem \<Rightarrow> UserProfile \<Rightarrow> real" where
  "topicAffinity_spec item profile =
    (let t = topics profile (topic item);
         s = (case t of None \<Rightarrow> None | Some rt \<Rightarrow> subtopics rt (subtopic item));
         b = (case s of None \<Rightarrow> None | Some st \<Rightarrow> branches st (branch item))
     in (weightOrDefault t + weightOrDefault s + weightOrDefault b) / 3)"

definition accuracy_spec :: "answer \<Rightarrow> real" where
  "accuracy_spec a = (if a = Answered True then 0.25 else if a = Answered False then - 0.25 else 0)"

definition timeBonus_spec :: "int \<Rightarrow> real" where
  "timeBonus_spec ms = (if ms < 3000 then 0.15 else if ms > 15000 then - 0.15 else 0)"

definition skipPenalty_spec :: "bool \<Rightarrow> real" where
  "skipPenalty_spec skipped = (if skipped then - 0.20 else 0)"

definition cooldownBonus_spec :: "int \<Rightarrow> int \<Rightarrow> real" where
  "cooldownBonus_spec now viewed = min (0.10 * (real_of_int (now - viewed) / 86400000)) 0.5"

definition score_spec :: "int \<Rightarrow> FeedItem \<Rightarrow> UserProfile \<Rightarrow> real" where
  "score_spec now item profile =
    (case interactions profile (item_id item) of
       Some i \<Rightarrow>
         0.30 * topicAffinity_spec item profile +
         (accuracy_spec (wasCorrect i) + timeBonus_spec (timeSpent i) +
          skipPenalty_spec (wasSkipped i) + cooldownBonus_spec now (viewedAt i)) + 0
     | None \<Rightarrow> 0.30 * topicAffinity_spec item profile + 0 + 0.15)"

text \<open>
  Sample inputs: a question, a profile without topics that has viewed it at time
  \<open>t\<close>, and a profile without topics and interactions.
\<close>

definition sampleItem :: FeedItem where
  "sampleItem = \<lparr>item_id = ''q1'', topic = ''Science'', subtopic = ''Physics'', branch = ''Mechanics''\<rparr>"

definition viewedProfile :: "answer \<Rightarrow> int \<Rightarrow> UserProfile" where
  "viewedProfile a t =
    \<lparr>topics = Map.empty,
     interactions = [''q1'' \<mapsto> \<lparr>wasCorrect = a, wasSkipped = False, timeSpent = 5000, viewedAt = t\<rparr>],
     lastRefreshed = t, coldStartComplete = None, totalQuestionsAnswered = None\<rparr>"

definition emptyProfile :: UserProfile where
  "emptyProfile =
    \<lparr>topics = Map.empty, interactions = Map.empty, lastRefreshed = 0,
     coldStartComplete = None, totalQuestionsAnswered = None\<rparr>"

section \<open>The weight model\<close>

text \<open>
  Modelled from the spec: \<^verbatim>\<open>personalizationService.ts\<close>, which updates the
  weights, is not among the sources. \<open>applyOutcome\<close> follows section 4.1 of the
  specification: the node addressed by the item's labels is looked up or created at
  the default weight, the delta of the table is applied (the compensation delta when
  the recorded interaction was a skip and the outcome is an answer), \<^verbatim>\<open>lastViewed\<close>
  is set on the three nodes, the interaction is upserted and the count of answers
  grows for an outcome that is not a skip. The clamp is the one the architecture
  document quotes from the service (lines 726 to 731 and 780 to 785):
  \<^verbatim>\<open>Math.min(1.0, w + d)\<close> for an increase, \<^verbatim>\<open>Math.max(0.1, w - d)\<close> for a decrease.
\<close>

datatype outcome = Correct | Incorrect | Skipped

definition newBranch :: TopicBranch where
  "newBranch = \<lparr>weight = DEFAULT_TOPIC_WEIGHT, lastViewed = None\<rparr>"

definition newSubTopic :: SubTopic where
  "newSubTopic = \<lparr>weight = DEFAULT_TOPIC_WEIGHT, lastViewed = None, branches = Map.empty\<rparr>"

definition newRootTopic :: RootTopic where
  "newRootTopic = \<lparr>weight = DEFAULT_TOPIC_WEIGHT, lastViewed = None, subtopics = Map.empty\<rparr>"

text \<open>
  Modelled from the spec: the delta table of section 4.1, for the topic, the subtopic
  and the branch, with the compensation deltas of an answer that follows a skip.
\<close>

fun deltas :: "outcome \<Rightarrow> bool \<Rightarrow> real \<times> real \<times> real" where
  "deltas Correct False = (0.10, 0.15, 0.20)"
| "deltas Incorrect False = (0.05, 0.07, 0.10)"
| "deltas Skipped compensation = (- 0.05, - 0.07, - 0.10)"
| "deltas Correct True = (0.05, 0.07, 0.10)"
| "deltas Incorrect True = (0.03, 0.04, 0.05)"

text \<open>
  Modelled from the spec: the clamped update of one weight, in the two forms the
  architecture document quotes.
\<close>

definition adjust :: "real \<Rightarrow> real \<Rightarrow> real" where
  "adjust w delta = (if 0 \<le> delta then min 1.0 (w + delta) else max 0.1 (w + delta))"

text \<open>
  Modelled from the spec: \<^verbatim>\<open>applyOutcome(profile, item, outcome, timeSpentMs)\<close> of
  section 4.1; \<open>now\<close> is the time of the event.
\<close>

definition applyOutcome ::
  "UserProfile \<Rightarrow> FeedItem \<Rightarrow> outcome \<Rightarrow> int \<Rightarrow> int \<Rightarrow> UserProfile" where
  "applyOutcome profile item outcome timeSpentMs now =
    (let compensation =
           (outcome \<noteq> Skipped \<and>
            (case interactions profile (item_id item) of
               None \<Rightarrow> False
             | Some previous \<Rightarrow> wasSkipped previous));
         topicNode = (case topics profile (topic item) of None \<Rightarrow> newRootTopic | Some t \<Rightarrow> t);
         subtopicNode =
           (case subtopics topicNode (subtopic item) of None \<Rightarrow> newSubTopic | Some s \<Rightarrow> s);
         branchNode =
           (case branches subtopicNode (branch item) of None \<Rightarrow> newBranch | Some b \<Rightarrow> b)
     in case deltas outcome compensation of
          (topicDelta, subtopicDelta, branchDelta) \<Rightarrow>
            let branchNode' = branchNode
                  \<lparr>weight := adjust (weight branchNode) branchDelta, lastViewed := Some now\<rparr>;
                subtopicNode' = subtopicNode
                  \<lparr>weight := adjust (weight subtopicNode) subtopicDelta, lastViewed := Some now,
                   branches := (branches subtopicNode)(branch item \<mapsto> branchNode')\<rparr>;
                topicNode' = topicNode
                  \<lparr>weight := adjust (weight topicNode) topicDelta, lastViewed := Some now,
                   subtopics := (subtopics topicNode)(subtopic item \<mapsto> subtopicNode')\<rparr>;
                interaction =
                  \<lparr>wasCorrect = (case outcome of Correct \<Rightarrow> Answered True
                                  | Incorrect \<Rightarrow> Answered False | Skipped \<Rightarrow> Null),
                   wasSkipped = (outcome = Skipped), timeSpent = timeSpentMs, viewedAt = now\<rparr>
            in profile
                 \<lparr>topics := (topics profile)(topic item \<mapsto> topicNode'),
                  interactions := (interactions profile)(item_id item \<mapsto> interaction),
                  totalQuestionsAnswered :=
                    (if outcome = Skipped then totalQuestionsAnswered profile
                     else Some (Suc (case totalQuestionsAnswered profile of
                                       None \<Rightarrow> 0 | Some n \<Rightarrow> n)))\<rparr>)"

text \<open>The weight-range predicate: every topic, subtopic and branch weight lies in [0.1, 1.0].\<close>

definition inRange :: "real \<Rightarrow> bool" where
  "inRange w = (0.1 \<le> w \<and> w \<le> 1.0)"

definition subTopicInRange :: "SubTopic \<Rightarrow> bool" where
  "subTopicInRange s =
    (inRange (weight s) \<and> (\<forall>b br. branches s b = Some br \<longrightarrow> inRange (weight br)))"

definition rootTopicInRange :: "RootTopic \<Rightarrow> bool" where
  "rootTopicInRange t =
    (inRange (weight t) \<and> (\<forall>s st. subtopics t s = Some st \<longrightarrow> subTopicInRange st))"

definition weightsInRange :: "UserProfile \<Rightarrow> bool" where
  "weightsInRange p = (\<forall>t rt. topics p t = Some rt \<longrightarrow> rootTopicInRange rt)"

section \<open>Conflict resolution\<close>

text \<open>
  Modelled from the spec: \<^verbatim>\<open>mergeTopics\<close> of \<^verbatim>\<open>simplifiedSyncService.ts\<close> is
  not among the sources. Section 4.5 of the specification merges the weights leaf by
  leaf, \<^verbatim>\<open>mergedWeight = max(localWeight, remoteWeight)\<close>; a node that only one
  side has is taken as it is, and the fields of a merged node other than its weight
  are the local node's.
\<close>

definition mergeMaps :: "('a \<Rightarrow> 'a \<Rightarrow> 'a) \<Rightarrow> (string \<rightharpoonup> 'a) \<Rightarrow> (string \<rightharpoonup> 'a) \<Rightarrow> (string \<rightharpoonup> 'a)" where
  "mergeMaps f local remote =
    (\<lambda>k. case local k of
            None \<Rightarrow> remote k
          | Some l \<Rightarrow> (case remote k of None \<Rightarrow> Some l | Some r \<Rightarrow> Some (f l r)))"

text \<open>
  Modelled from the spec: the merge of two branches, two subtopics, two topics and
  two topic trees, each weight the maximum of the two sides.
\<close>

definition mergeBranch :: "TopicBranch \<Rightarrow> TopicBranch \<Rightarrow> TopicBranch" where
  "mergeBranch l r = l\<lparr>weight := max (weight l) (weight r)\<rparr>"

definition mergeSubTopic :: "SubTopic \<Rightarrow> SubTopic \<Rightarrow> SubTopic" where
  "mergeSubTopic l r =
     l\<lparr>weight := max (weight l) (weight r),
       branches := mergeMaps mergeBranch (branches l) (branches r)\<rparr>"

definition mergeRootTopic :: "RootTopic \<Rightarrow> RootTopic \<Rightarrow> RootTopic" where
  "mergeRootTopic l r =
     l\<lparr>weight := max (weight l) (weight r),
       subtopics := mergeMaps mergeSubTopic (subtopics l) (subtopics r)\<rparr>"

definition mergeTopics :: "(string \<rightharpoonup> RootTopic) \<Rightarrow> (string \<rightharpoonup> RootTopic) \<Rightarrow> (string \<rightharpoonup> RootTopic)" where
  "mergeTopics localTopics remoteTopics = mergeMaps mergeRootTopic localTopics remoteTopics"

text \<open>
  The conflict resolution that the architecture document quotes from the sync service
  (lines 936 to 963): the row that is upserted after a version conflict, from the local
  profile and the latest remote row. The interactions are the object spread
  \<^verbatim>\<open>{...latestData.interactions, ...userProfile.interactions}\<close>: on a shared key the
  local entry replaces the remote one. The upsert does not write
  \<^verbatim>\<open>cold_start_complete\<close>, which stays the remote row's.
\<close>

record ProfileRecord = UserProfile +
  version :: nat

definition resolveConflict :: "UserProfile \<Rightarrow> UserProfile \<Rightarrow> nat \<Rightarrow> int \<Rightarrow> ProfileRecord" where
  "resolveConflict userProfile latestData latestVersion now =
    (let mergedTopics = mergeTopics (topics userProfile) (topics latestData);
         mergedInteractions = interactions latestData ++ interactions userProfile
     in \<lparr>topics = mergedTopics,
         interactions = mergedInteractions,
         lastRefreshed = now,
         coldStartComplete = coldStartComplete latestData,
         totalQuestionsAnswered =
           Some (max (case totalQuestionsAnswered userProfile of None \<Rightarrow> 0 | Some n \<Rightarrow> n)
                     (case totalQuestionsAnswered latestData of None \<Rightarrow> 0 | Some n \<Rightarrow> n)),
         version = latestVersion + 1\<rparr>)"

text \<open>
  The weight values of a topic tree, by topic, subtopic and branch name, and the
  leaf-wise maximum of two optional weights.
\<close>

definition topicWeightOf :: "(string \<rightharpoonup> RootTopic) \<Rightarrow> string \<Rightarrow> real option" where
  "topicWeightOf ts t = map_option weight (ts t)"

definition subtopicWeightOf :: "(string \<rightharpoonup> RootTopic) \<Rightarrow> string \<Rightarrow> string \<Rightarrow> real option" where
  "subtopicWeightOf ts t s =
    (case ts t of None \<Rightarrow> None | Some rt \<Rightarrow> map_option weight (subtopics rt s))"

definition branchWeightOf :: "(string \<rightharpoonup> RootTopic) \<Rightarrow> string \<Rightarrow> string \<Rightarrow> string \<Rightarrow> real option" where
  "branchWeightOf ts t s b =
    (case ts t of
       None \<Rightarrow> None
     | Some rt \<Rightarrow>
         (case subtopics rt s of None \<Rightarrow> None | Some st \<Rightarrow> map_option weight (branches st b)))"

definition leafMax :: "real option \<Rightarrow> real option \<Rightarrow> real option" where
  "leafMax a b =
    (case a of None \<Rightarrow> b | Some x \<Rightarrow> (case b of None \<Rightarrow> Some x | Some y \<Rightarrow> Some (max x y)))"

text \<open>Sample inputs: profiles with one interaction, for the question \<^verbatim>\<open>q1\<close>.\<close>

definition answeredAt :: "bool \<Rightarrow> int \<Rightarrow> QuestionInteraction" where
  "answeredAt correct t = \<lparr>wasCorrect = Answered correct, wasSkipped = False, timeSpent = 5000, viewedAt = t\<rparr>"

definition profileWith :: "real \<Rightarrow> QuestionInteraction \<Rightarrow> UserProfile" where
  "profileWith w i = (profileAt w 0)\<lparr>interactions := [''q1'' \<mapsto> i]\<rparr>"

section \<open>The cold-start filter\<close>

text \<open>
  The eligibility filter of the feed, as the architecture document quotes it (lines
  584 to 607), with \<^verbatim>\<open>totalQuestionsAnswered\<close> and \<^verbatim>\<open>isColdStart\<close> read from
  the profile as in the checkpoint code (lines 885 and 886):
  \<^verbatim>\<open>userProfile.totalQuestionsAnswered || 0\<close> and \<^verbatim>\<open>!userProfile.coldStartComplete\<close>.
  \<^verbatim>\<open>topics[item.topic]?.weight < t\<close> is false for a topic the profile does not have.
  During cold start with 20 answers or more, no branch returns: the callback's result
  is \<^verbatim>\<open>undefined\<close>, and the filter drops the item.
\<close>

definition isLowWeight :: "UserProfile \<Rightarrow> FeedItem \<Rightarrow> real \<Rightarrow> bool" where
  "isLowWeight userProfile item threshold =
    (case topics userProfile (topic item) of None \<Rightarrow> False | Some t \<Rightarrow> weight t < threshold)"

definition answeredCount :: "UserProfile \<Rightarrow> nat" where
  "answeredCount userProfile =
    (case totalQuestionsAnswered userProfile of None \<Rightarrow> 0 | Some n \<Rightarrow> n)"

definition isColdStart :: "UserProfile \<Rightarrow> bool" where
  "isColdStart userProfile = (coldStartComplete userProfile \<noteq> Some True)"

definition feedFilter :: "UserProfile \<Rightarrow> string set \<Rightarrow> bool \<Rightarrow> FeedItem \<Rightarrow> bool" where
  "feedFilter userProfile existingIds isAppropriateDifficulty item =
    (if isColdStart userProfile then
       if answeredCount userProfile < 5 then
         item_id item \<notin> existingIds \<and> isAppropriateDifficulty
       else if answeredCount userProfile < 12 then
         item_id item \<notin> existingIds \<and> \<not> isLowWeight userProfile item 0.2 \<and>
         isAppropriateDifficulty
       else if answeredCount userProfile < 20 then
         item_id item \<notin> existingIds \<and> \<not> isLowWeight userProfile item 0.3
       else False
     else item_id item \<notin> existingIds \<and> \<not> isLowWeight userProfile item 0.2)"

text \<open>
  The four phases, and the branch of the filter that a profile selects (\<open>None\<close>
  where no branch returns).
\<close>

datatype phase = Exploration | Branching | Adaptive | SteadyState

definition filterPhase :: "UserProfile \<Rightarrow> phase option" where
  "filterPhase userProfile =
    (if isColdStart userProfile then
       if answeredCount userProfile < 5 then Some Exploration
       else if answeredCount userProfile < 12 then Some Branching
       else if answeredCount userProfile < 20 then Some Adaptive
       else None
     else Some SteadyState)"

text \<open>
  The filter as the specification words it, for comparison with the one above: the
  phase is a function of the number of answers, with boundaries at 5, 12 and 20, and
  each phase has its test.
\<close>

definition phase_spec :: "nat \<Rightarrow> phase" where
  "phase_spec totalAnswered =
    (if totalAnswered < 5 then Exploration
     else if totalAnswered < 12 then Branching
     else if totalAnswered < 20 then Adaptive
     else SteadyState)"

fun phaseFilter_spec :: "phase \<Rightarrow> UserProfile \<Rightarrow> string set \<Rightarrow> bool \<Rightarrow> FeedItem \<Rightarrow> bool" where
  "phaseFilter_spec Exploration p existingIds difficultyOk item =
     (item_id item \<notin> existingIds \<and> difficultyOk)"
| "phaseFilter_spec Branching p existingIds difficultyOk item =
     (item_id item \<notin> existingIds \<and> \<not> isLowWeight p item 0.2 \<and> difficultyOk)"
| "phaseFilter_spec Adaptive p existingIds difficultyOk item =
     (item_id item \<notin> existingIds \<and> \<not> isLowWeight p item 0.3)"
| "phaseFilter_spec SteadyState p existingIds difficultyOk item =
     (item_id item \<notin> existingIds \<and> \<not> isLowWeight p item 0.2)"

definition feedFilter_spec :: "UserProfile \<Rightarrow> string set \<Rightarrow> bool \<Rightarrow> FeedItem \<Rightarrow> bool" where
  "feedFilter_spec userProfile existingIds difficultyOk item =
    phaseFilter_spec (phase_spec (answeredCount userProfile)) userProfile existingIds
      difficultyOk item"

text \<open>
  Sample inputs: a profile with a count of answers and the cold-start flag, refreshed at
  time \<open>t\<close>.
\<close>

definition progressAt :: "real \<Rightarrow> nat \<Rightarrow> bool \<Rightarrow> int \<Rightarrow> UserProfile" where
  "progressAt w n finished t =
    (profileAt w t)\<lparr>coldStartComplete := Some finished, totalQuestionsAnswered := Some n\<rparr>"

section \<open>Theorems\<close>

lemma hadw_profileAt: "hasAllDefaultWeights (profileAt w t) = (w = 0.5)"
  by (auto simp: hasAllDefaultWeights_def profileAt_def topicAt_def DEFAULT_TOPIC_WEIGHT_def)

lemma lastRefreshed_profileAt: "lastRefreshed (profileAt w t) = t"
  by (simp add: profileAt_def)

lemma user_id_sampleUser: "user_id sampleUser = ''u1''"
  by (simp add: sampleUser_def)

lemma js_eq_iff [simp]: "js a = js b \<longleftrightarrow> a = b"
  by (simp add: js_def inj_map_eq_map inj_on_def)

lemma js_empty_iff [simp]: "js a = [] \<longleftrightarrow> a = []"
  by (simp add: js_def)

subsection \<open>Initial load\<close>

text \<open>
  C1. For a signed-in user whose data is not loaded yet, \<^verbatim>\<open>loadInitialData\<close> resolves
  by the three-way rule. With a fetched remote profile \<open>r\<close> and the local profile \<open>l\<close>:
  if \<open>r\<close> was refreshed strictly later than \<open>l\<close>, \<open>r\<close> is the one profile handed to the
  store and nothing is pushed; otherwise, if \<open>l\<close> has all-default weights and \<open>r\<close> has
  not, again \<open>r\<close> is adopted and nothing is pushed; otherwise \<open>l\<close> is pushed, and no
  profile but \<open>l\<close> is handed to the store (it is handed over when the push returns).
  With no remote profile, \<open>l\<close> is pushed and kept in the same way. This holds for
  every all-default predicate \<open>hadw\<close>.
\<close>

theorem initial_load_three_way:
  assumes "user = Some u" and "user_id u \<noteq> []"
  shows "(fetched = Returned (Some r) \<and> lastRefreshed r > lastRefreshed l \<longrightarrow>
            adopted (loadInitialData hadw user False l fetched pushOk now) = [r] \<and>
            pushed (loadInitialData hadw user False l fetched pushOk now) = []) \<and>
         (fetched = Returned (Some r) \<and> \<not> lastRefreshed r > lastRefreshed l \<and>
            hadw l \<and> \<not> hadw r \<longrightarrow>
            adopted (loadInitialData hadw user False l fetched pushOk now) = [r] \<and>
            pushed (loadInitialData hadw user False l fetched pushOk now) = []) \<and>
         (fetched = Returned (Some r) \<and> \<not> lastRefreshed r > lastRefreshed l \<and>
            \<not> (hadw l \<and> \<not> hadw r) \<longrightarrow>
            adopted (loadInitialData hadw user False l fetched pushOk now) =
              (if pushOk then [l] else []) \<and>
            pushed (loadInitialData hadw user False l fetched pushOk now) = [l]) \<and>
         (fetched = Returned None \<longrightarrow>
            adopted (loadInitialData hadw user False l fetched pushOk now) =
              (if pushOk then [l] else []) \<and>
            pushed (loadInitialData hadw user False l fetched pushOk now) = [l])"
  using assms by (auto simp: loadInitialData_def Let_def)

theorem initial_load_three_way_witness:
  "adopted (loadInitialData hasAllDefaultWeights (Some sampleUser) False (profileAt 0.6 10)
      (Returned (Some (profileAt 0.5 20))) True 99) = [profileAt 0.5 20] \<and>
   adopted (loadInitialData hasAllDefaultWeights (Some sampleUser) False (profileAt 0.5 10)
      (Returned (Some (profileAt 0.9 10))) True 99) = [profileAt 0.9 10] \<and>
   pushed (loadInitialData hasAllDefaultWeights (Some sampleUser) False (profileAt 0.6 10)
      (Returned (Some (profileAt 0.9 10))) True 99) = [profileAt 0.6 10] \<and>
   pushed (loadInitialData hasAllDefaultWeights (Some sampleUser) False (profileAt 0.6 10)
      (Returned None) True 99) = [profileAt 0.6 10]"
proof -
  have u: "user_id sampleUser \<noteq> []"
    by (simp add: sampleUser_def)
  note th = initial_load_three_way [OF refl u, where hadw = hasAllDefaultWeights
      and pushOk = True and now = 99]
  show ?thesis
    using th [of "Returned (Some (profileAt 0.5 20))" "profileAt 0.5 20" "profileAt 0.6 10"]
          th [of "Returned (Some (profileAt 0.9 10))" "profileAt 0.9 10" "profileAt 0.5 10"]
          th [of "Returned (Some (profileAt 0.9 10))" "profileAt 0.9 10" "profileAt 0.6 10"]
          th [of "Returned None" "profileAt 0.9 10" "profileAt 0.6 10"]
    by (simp add: lastRefreshed_profileAt hadw_profileAt)
qed

subsection \<open>The write-only gate\<close>

lemma completes_loadInitialData:
  "completes (loadInitialData hadw user False l fetched pushOk now) \<longleftrightarrow>
     (\<exists>u. user = Some u \<and> user_id u \<noteq> [] \<and>
        (pushOk \<or> (\<exists>r. fetched = Returned (Some r) \<and>
           (lastRefreshed l < lastRefreshed r \<or> hadw l \<and> \<not> hadw r))))"
  by (cases user; cases fetched; cases pushOk)
     (simp_all add: loadInitialData_def Let_def completes_def split: option.split)

lemma adopted_loadInitialData:
  assumes "user = Some u" "user_id u \<noteq> []"
    "pushOk \<or> (\<exists>r. fetched = Returned (Some r) \<and>
           (lastRefreshed l < lastRefreshed r \<or> hadw l \<and> \<not> hadw r))"
  shows "adopted (loadInitialData hadw user False l fetched pushOk now) =
     [case fetched of Returned (Some r) \<Rightarrow>
         if lastRefreshed l < lastRefreshed r \<or> hadw l \<and> \<not> hadw r then r else l
       | _ \<Rightarrow> l]"
  using assms
  by (cases fetched; cases pushOk)
     (auto simp: loadInitialData_def Let_def split: option.split)

lemma entersWriteOnly_loadInitialData:
  assumes "user = Some u" "user_id u \<noteq> []"
    "pushOk \<or> (\<exists>r. fetched = Returned (Some r) \<and>
           (lastRefreshed l < lastRefreshed r \<or> hadw l \<and> \<not> hadw r))"
  shows "entersWriteOnly (loadInitialData hadw user False l fetched pushOk now) \<longleftrightarrow>
     \<not> hadw (case fetched of Returned (Some r) \<Rightarrow> r | _ \<Rightarrow> l)"
  using assms
  by (cases fetched; cases pushOk)
     (auto simp: loadInitialData_def Let_def entersWriteOnly_def split: option.split)

lemma adopted_append: "adopted (xs @ ys) = adopted xs @ adopted ys"
  by (induction xs rule: adopted.induct) simp_all

lemma resultingProfile_alt:
  "resultingProfile l es = (if adopted es = [] then l else last (adopted es))"
  by (cases "adopted es") (simp_all add: resultingProfile_def)

lemma resultingProfile_append:
  "resultingProfile l (xs @ ys) = resultingProfile (resultingProfile l xs) ys"
  by (simp add: resultingProfile_alt adopted_append)

lemma entersWriteOnly_append:
  "entersWriteOnly (xs @ ys) \<longleftrightarrow> entersWriteOnly xs \<or> entersWriteOnly ys"
  by (auto simp: entersWriteOnly_def)

lemma checkDefaultWeights_gate:
  assumes "user = Some u" "user_id u \<noteq> []" and "writeOnly \<longrightarrow> \<not> hadw p"
  shows "writeOnly \<or> entersWriteOnly (checkDefaultWeights hadw user p refetched writeOnly later)
           \<longleftrightarrow> \<not> hadw (resultingProfile p
                 (checkDefaultWeights hadw user p refetched writeOnly later))"
  using assms
  by (cases refetched; cases writeOnly)
     (auto simp: checkDefaultWeights_def entersWriteOnly_def resultingProfile_def
      split: option.split)

lemma checkDefaultWeights_same:
  assumes "user = Some u" "user_id u \<noteq> []" and "writeOnly \<longrightarrow> \<not> hadw p"
    and "hadw p \<longrightarrow> (\<forall>r. refetched = Returned (Some r) \<longrightarrow> hadw r)"
  shows "writeOnly \<or> entersWriteOnly (checkDefaultWeights hadw user p refetched writeOnly later)
           \<longleftrightarrow> \<not> hadw p"
  using assms
  by (cases refetched; cases writeOnly)
     (auto simp: checkDefaultWeights_def entersWriteOnly_def split: option.split)

text \<open>
  C6. When \<^verbatim>\<open>loadInitialData\<close> has completed and the pass of
  \<^verbatim>\<open>checkDefaultWeights\<close> that it triggers has run, the component has entered
  write-only mode if and only if the profile of the store has a topic weight that is
  not the default: it never enters write-only mode while the current profile is
  all-default. When the second fetch sees what the first fetch saw, that profile is
  the one \<^verbatim>\<open>loadInitialData\<close> adopted, and the component has entered write-only
  mode if and only if the adopted profile is not all-default. This holds for every
  all-default predicate \<open>hadw\<close>.
\<close>

theorem write_only_iff_non_default:
  assumes "completes (loadInitialData hadw user False l fetched pushOk now)"
  shows "(entersWriteOnly (initialLoad hadw user l fetched pushOk now refetched later) \<longleftrightarrow>
            \<not> hadw (resultingProfile l
                 (initialLoad hadw user l fetched pushOk now refetched later))) \<and>
         (refetched = fetched \<longrightarrow>
            (entersWriteOnly (initialLoad hadw user l fetched pushOk now refetched later) \<longleftrightarrow>
               \<not> hadw (resultingProfile l
                    (loadInitialData hadw user False l fetched pushOk now))))"
proof -
  let ?es = "loadInitialData hadw user False l fetched pushOk now"
  let ?p = "resultingProfile l ?es"
  let ?cs = "checkDefaultWeights hadw user ?p refetched (entersWriteOnly ?es) later"
  have il: "initialLoad hadw user l fetched pushOk now refetched later = ?es @ ?cs"
    using assms by (simp add: initialLoad_def Let_def)
  from assms obtain u where u: "user = Some u" "user_id u \<noteq> []"
    and c: "pushOk \<or> (\<exists>r. fetched = Returned (Some r) \<and>
           (lastRefreshed l < lastRefreshed r \<or> hadw l \<and> \<not> hadw r))"
    unfolding completes_loadInitialData by blast
  note a = adopted_loadInitialData [OF u c, of now]
  note w = entersWriteOnly_loadInitialData [OF u c, of now]
  have p: "?p = (case fetched of Returned (Some r) \<Rightarrow>
         if lastRefreshed l < lastRefreshed r \<or> hadw l \<and> \<not> hadw r then r else l
       | _ \<Rightarrow> l)"
    by (simp add: resultingProfile_alt a)
  have inv: "entersWriteOnly ?es \<longrightarrow> \<not> hadw ?p"
    unfolding p w by (auto split: awaited.split option.split)
  have first: "entersWriteOnly (?es @ ?cs) \<longleftrightarrow> \<not> hadw (resultingProfile l (?es @ ?cs))"
    unfolding entersWriteOnly_append resultingProfile_append
    using checkDefaultWeights_gate [of user u "entersWriteOnly ?es" hadw ?p refetched later] u inv
    by blast
  have same: "hadw ?p \<longrightarrow> (\<forall>r. refetched = Returned (Some r) \<longrightarrow> hadw r)"
    if "refetched = fetched"
    unfolding p using that by (auto split: awaited.split option.split)
  have second: "entersWriteOnly (?es @ ?cs) \<longleftrightarrow> \<not> hadw ?p" if "refetched = fetched"
    unfolding entersWriteOnly_append
    using checkDefaultWeights_same [of user u "entersWriteOnly ?es" hadw ?p refetched later]
      u inv same [OF that]
    by blast
  show ?thesis
    unfolding il using first second by blast
qed

theorem write_only_iff_non_default_witness:
  "completes (loadInitialData hasAllDefaultWeights (Some sampleUser) False (profileAt 0.9 10)
      (Returned (Some (profileAt 0.5 5))) True 99) \<and>
   \<not> entersWriteOnly (loadInitialData hasAllDefaultWeights (Some sampleUser) False
      (profileAt 0.9 10) (Returned (Some (profileAt 0.5 5))) True 99) \<and>
   entersWriteOnly (initialLoad hasAllDefaultWeights (Some sampleUser) (profileAt 0.9 10)
      (Returned (Some (profileAt 0.5 5))) True 99 (Returned (Some (profileAt 0.5 5))) 100) \<and>
   \<not> hasAllDefaultWeights (resultingProfile (profileAt 0.9 10)
      (loadInitialData hasAllDefaultWeights (Some sampleUser) False (profileAt 0.9 10)
         (Returned (Some (profileAt 0.5 5))) True 99)) \<and>
   completes (loadInitialData hasAllDefaultWeights (Some sampleUser) False (profileAt 0.5 10)
      (Returned None) True 99) \<and>
   \<not> entersWriteOnly (initialLoad hasAllDefaultWeights (Some sampleUser) (profileAt 0.5 10)
      (Returned None) True 99 (Returned None) 100) \<and>
   hasAllDefaultWeights (resultingProfile (profileAt 0.5 10)
      (loadInitialData hasAllDefaultWeights (Some sampleUser) False (profileAt 0.5 10)
         (Returned None) True 99))"
proof -
  have c1: "completes (loadInitialData hasAllDefaultWeights (Some sampleUser) False
      (profileAt 0.9 10) (Returned (Some (profileAt 0.5 5))) True 99)"
    by (simp add: completes_loadInitialData user_id_sampleUser)
  have c2: "completes (loadInitialData hasAllDefaultWeights (Some sampleUser) False
      (profileAt 0.5 10) (Returned None) True 99)"
    by (simp add: completes_loadInitialData user_id_sampleUser)
  have u: "Some sampleUser = Some sampleUser" "user_id sampleUser \<noteq> []"
    by (simp_all add: user_id_sampleUser)
  have r1: "resultingProfile (profileAt 0.9 10)
      (loadInitialData hasAllDefaultWeights (Some sampleUser) False (profileAt 0.9 10)
         (Returned (Some (profileAt 0.5 5))) True 99) = profileAt 0.9 10"
    by (simp add: resultingProfile_alt adopted_loadInitialData [OF u] hadw_profileAt
        lastRefreshed_profileAt)
  have r2: "resultingProfile (profileAt 0.5 10)
      (loadInitialData hasAllDefaultWeights (Some sampleUser) False (profileAt 0.5 10)
         (Returned None) True 99) = profileAt 0.5 10"
    by (simp add: resultingProfile_alt adopted_loadInitialData [OF u])
  have e1: "\<not> entersWriteOnly (loadInitialData hasAllDefaultWeights (Some sampleUser) False
      (profileAt 0.9 10) (Returned (Some (profileAt 0.5 5))) True 99)"
    by (simp add: entersWriteOnly_loadInitialData [OF u] hadw_profileAt)
  have n1: "\<not> hasAllDefaultWeights (profileAt 0.9 10)"
    and d2: "hasAllDefaultWeights (profileAt 0.5 10)"
    by (simp_all add: hadw_profileAt)
  note t1 = write_only_iff_non_default [OF c1, of "Returned (Some (profileAt 0.5 5))" 100,
      THEN conjunct2, THEN mp, OF refl, unfolded r1]
  note t2 = write_only_iff_non_default [OF c2, of "Returned None" 100,
      THEN conjunct2, THEN mp, OF refl, unfolded r2]
  show ?thesis
    unfolding r1 r2 using c1 c2 e1 t1 t2 n1 d2 by blast
qed

subsection \<open>Topic colours\<close>

lemma topicColors_nonempty: "\<forall>kv \<in> set topicColors. snd kv \<noteq> []"
  by (simp add: topicColors_def)

lemma topicColors_values: "map_of topicColors k = Some v \<Longrightarrow> v \<noteq> []"
  using topicColors_nonempty map_of_SomeD [of topicColors k v] by fastforce

lemma topicColors_default: "map_of topicColors (js ''default'') = Some (js ''#455A64'')"
  by (simp add: topicColors_def)

lemma truthy_lookup: "truthy (map_of topicColors k) \<longleftrightarrow> k \<in> fst ` set topicColors"
proof (cases "map_of topicColors k")
  case None
  then have "k \<notin> fst ` set topicColors"
    by (simp add: map_of_eq_None_iff)
  then show ?thesis
    using None by (simp add: truthy_def)
next
  case (Some v)
  then have "v \<noteq> []"
    by (rule topicColors_values)
  moreover have "k \<in> fst ` set topicColors"
    using Some map_of_eq_None_iff [of topicColors k] by auto
  ultimately show ?thesis
    using Some by (simp add: truthy_def)
qed

text \<open>
  C10. The two implementations of \<^verbatim>\<open>getTopicColor\<close> return the same colour for
  every category: every value of the table is a non-empty string, so the truthy lookup
  of the design module and the key test of the hook agree, the partial match is the
  same, and the table has the key \<^verbatim>\<open>default\<close> with the colour of the hook's fallback.
\<close>

theorem getTopicColor_equal:
  "design_getTopicColor category = useDesignSystem_getTopicColor category"
  by (simp add: design_getTopicColor_def useDesignSystem_getTopicColor_def hook_getTopicColor_def
      truthy_lookup Let_def topicColors_default)

subsection \<open>The question fingerprint\<close>

lemma toLowerCase_append: "toLowerCase (xs @ ys) = toLowerCase xs @ toLowerCase ys"
  by (simp add: toLowerCase_def)

lemma toLowerCase_Cons: "toLowerCase (c # cs) = toLowerUnit c @ toLowerCase cs"
  by (simp add: toLowerCase_def)

lemma removePunctuation_append:
  "removePunctuation (xs @ ys) = removePunctuation xs @ removePunctuation ys"
  by (simp add: removePunctuation_def)

lemma lower_space: "isSpaceChar c \<Longrightarrow> toLowerUnit c = [c]"
  by (auto simp: isSpaceChar_def toLowerUnit_def)

lemma lower_punctuation:
  "isPunctuation c \<Longrightarrow> \<not> lowersToLetter c \<Longrightarrow> removePunctuation (toLowerUnit c) = []"
  by (auto simp: isPunctuation_def lowersToLetter_def isWordChar_def isSpaceChar_def
      toLowerUnit_def removePunctuation_def)

lemma lower_run: "list_all isSpaceChar r \<Longrightarrow> removePunctuation (toLowerCase r) = r"
  by (induction r) (simp_all add: toLowerCase_def removePunctuation_def lower_space)

lemma dropWhile_space_run:
  "list_all isSpaceChar r \<Longrightarrow> dropWhile isSpaceChar (r @ ys) = dropWhile isSpaceChar ys"
  by (induction r) simp_all

lemma collapse_run_head:
  assumes "r \<noteq> []" and "list_all isSpaceChar r"
  shows "collapseWhitespace (r @ ys) = 32 # collapseWhitespace (dropWhile isSpaceChar ys)"
proof (cases r)
  case Nil
  with assms show ?thesis by simp
next
  case (Cons c cs)
  with assms have "isSpaceChar c" and "list_all isSpaceChar cs"
    by simp_all
  then show ?thesis
    using Cons by (simp add: dropWhile_space_run)
qed

lemma collapse_run:
  assumes "r \<noteq> []" and "list_all isSpaceChar r"
  shows "collapseWhitespace (xs @ r @ ys) = collapseWhitespace (xs @ 32 # ys)"
proof (induction xs rule: collapseWhitespace.induct)
  case 1
  have "isSpaceChar 32"
    by (simp add: isSpaceChar_def)
  then show ?case
    using collapse_run_head [OF assms, of ys] by simp
next
  case (2 c cs)
  show ?case
  proof (cases "isSpaceChar c")
    case False
    with 2 show ?thesis by simp
  next
    case True
    have sp: "isSpaceChar 32"
      by (simp add: isSpaceChar_def)
    show ?thesis
    proof (cases "list_all isSpaceChar cs")
      case all: True
      have "dropWhile isSpaceChar (cs @ r @ ys) = dropWhile isSpaceChar ys"
        using all assms(2) by (simp add: dropWhile_space_run)
      moreover have "dropWhile isSpaceChar (cs @ 32 # ys) = dropWhile isSpaceChar ys"
        using all sp dropWhile_space_run [of "cs @ [32]" ys] by simp
      ultimately show ?thesis
        using True by simp
    next
      case notall: False
      then have ex: "\<exists>x\<in>set cs. \<not> isSpaceChar x"
        by (simp add: list_all_iff)
      then have "dropWhile isSpaceChar (cs @ zs) = dropWhile isSpaceChar cs @ zs" for zs
        by (auto simp: dropWhile_append1)
      then show ?thesis
        using True 2(1) by simp
    qed
  qed
qed

lemma normalize_whitespace_run:
  assumes "r \<noteq> []" and "r' \<noteq> []" and "list_all isSpaceChar r" and "list_all isSpaceChar r'"
  shows "normalizeQuestion (xs @ r @ ys) = normalizeQuestion (xs @ r' @ ys)"
proof -
  have "removePunctuation (toLowerCase (xs @ s @ ys)) =
        removePunctuation (toLowerCase xs) @ s @ removePunctuation (toLowerCase ys)"
    if "list_all isSpaceChar s" for s
    using lower_run [OF that] by (simp add: toLowerCase_append removePunctuation_append)
  then show ?thesis
    using assms by (simp add: normalizeQuestion_def collapse_run [of r] collapse_run [of r'])
qed

lemma normalize_letter_case:
  "toLowerUnit c = toLowerUnit d \<Longrightarrow>
     normalizeQuestion (xs @ c # ys) = normalizeQuestion (xs @ d # ys)"
  by (simp add: normalizeQuestion_def toLowerCase_append toLowerCase_Cons)

lemma normalize_punctuation:
  "isPunctuation c \<Longrightarrow> \<not> lowersToLetter c \<Longrightarrow>
     normalizeQuestion (xs @ c # ys) = normalizeQuestion (xs @ ys)"
  by (simp add: normalizeQuestion_def toLowerCase_append toLowerCase_Cons
      removePunctuation_append lower_punctuation)

lemma variant_normalize: "variant q1 q2 \<Longrightarrow> normalizeQuestion q1 = normalizeQuestion q2"
proof (induction rule: variant.induct)
  case (same q)
  show ?case by simp
next
  case (letter_case c d xs ys)
  then show ?case by (rule normalize_letter_case)
next
  case (punctuation_added c xs ys)
  then show ?case by (simp add: normalize_punctuation)
next
  case (punctuation_removed c xs ys)
  then show ?case by (simp add: normalize_punctuation)
next
  case (whitespace_run r r' xs ys)
  then show ?case by (rule normalize_whitespace_run)
next
  case (chain a b c)
  then show ?case by simp
qed

lemma sort_permutation: "mset tags1 = mset tags2 \<Longrightarrow> sort tags1 = sort (tags2 :: jsstring list)"
  by (rule properties_for_sort) simp_all

text \<open>
  C8, as the claim states it, fails. U+212A (the Kelvin sign) and U+0130 (capital I
  with dot above) are neither word characters nor whitespace, so the text a, U+212A,
  b and the text a, U+0130, b differ from \<^verbatim>\<open>ab\<close> only in punctuation; but
  \<^verbatim>\<open>toLowerCase\<close> runs before the punctuation is removed and turns the two
  characters into k and into i followed by U+0307, and the three fingerprints are
  \<^verbatim>\<open>ab|\<close>, \<^verbatim>\<open>akb|\<close> and \<^verbatim>\<open>aib|\<close>.
\<close>

theorem fingerprint_punctuation_counterexample:
  "isPunctuation 0x212A \<and> isPunctuation 0x130 \<and>
   generateQuestionFingerprint [97, 98] [] = js ''ab|'' \<and>
   generateQuestionFingerprint [97, 0x212A, 98] [] = js ''akb|'' \<and>
   generateQuestionFingerprint [97, 0x130, 98] [] = js ''aib|''"
  by (simp add: isPunctuation_def isWordChar_def isSpaceChar_def generateQuestionFingerprint_def
      normalizeQuestion_def toLowerCase_def toLowerUnit_def removePunctuation_def trim_def js_def)

text \<open>
  C8, amended. The fingerprint does not depend on the order of the tags: two tag lists
  that are permutations of each other give the same fingerprint. And it does not depend
  on letter case, on the length of whitespace runs, or on punctuation other than
  U+0130 and U+212A in the question text: two texts related by \<open>variant\<close> give the
  same fingerprint for the same tags.
\<close>

theorem fingerprint_invariance:
  "(mset tags1 = mset tags2 \<longrightarrow>
      generateQuestionFingerprint q tags1 = generateQuestionFingerprint q tags2) \<and>
   (variant q1 q2 \<longrightarrow>
      generateQuestionFingerprint q1 tags = generateQuestionFingerprint q2 tags)"
  by (auto simp: generateQuestionFingerprint_def Let_def dest: sort_permutation variant_normalize)

theorem fingerprint_invariance_witness:
  "generateQuestionFingerprint (js ''Who?'') [js ''b'', js ''a''] =
     generateQuestionFingerprint (js ''Who?'') [js ''a'', js ''b''] \<and>
   generateQuestionFingerprint (js ''Who  is, it?'') [js ''a''] =
     generateQuestionFingerprint (js ''who is it'') [js ''a'']"
proof -
  have m: "mset [js ''b'', js ''a''] = mset [js ''a'', js ''b'']"
    by simp
  have p: "isPunctuation 44" "\<not> lowersToLetter 44" "isPunctuation 63" "\<not> lowersToLetter 63"
    by (simp_all add: isPunctuation_def isWordChar_def isSpaceChar_def lowersToLetter_def)
  have v1: "variant (js ''Who  is'' @ 44 # js '' it?'') (js ''Who  is'' @ js '' it?'')"
    by (rule variant.punctuation_removed) (rule p)+
  have v2: "variant (js ''Who  is it'' @ 63 # []) (js ''Who  is it'' @ [])"
    by (rule variant.punctuation_removed) (rule p)+
  have v3: "variant (js ''Who'' @ [32, 32] @ js ''is it'') (js ''Who'' @ [32] @ js ''is it'')"
    by (rule variant.whitespace_run) (simp_all add: isSpaceChar_def)
  have v4: "variant ([] @ 87 # js ''ho is it'') ([] @ 119 # js ''ho is it'')"
    by (rule variant.letter_case) (simp add: toLowerUnit_def)
  have e1: "js ''Who  is'' @ 44 # js '' it?'' = js ''Who  is, it?''"
    and e2: "js ''Who  is'' @ js '' it?'' = js ''Who  is it'' @ 63 # []"
    and e3: "js ''Who  is it'' @ [] = js ''Who'' @ [32, 32] @ js ''is it''"
    and e4: "js ''Who'' @ [32] @ js ''is it'' = [] @ 87 # js ''ho is it''"
    and e5: "[] @ 119 # js ''ho is it'' = js ''who is it''"
    by (simp_all add: js_def)
  have v: "variant (js ''Who  is, it?'') (js ''who is it'')"
    using variant.chain [OF variant.chain [OF variant.chain [OF v1 [unfolded e1 e2] v2 [unfolded e3]]
        v3 [unfolded e4]] v4 [unfolded e5]] .
  note th = fingerprint_invariance [of "[js ''b'', js ''a'']" "[js ''a'', js ''b'']" "js ''Who?''"
      "js ''Who  is, it?''" "js ''who is it''" "[js ''a'']"]
  show ?thesis
    using th [THEN conjunct1, THEN mp, OF m] th [THEN conjunct2, THEN mp, OF v]
    by (rule conjI)
qed

subsection \<open>Looking a question up in the store\<close>

lemma similarityLoop_found:
  "similarityLoop semantic n questions \<Longrightarrow> \<exists>q \<in> set questions. similarStored semantic n q"
  by (induction questions) (auto split: if_splits)

lemma fallbackLoop_found:
  "fallbackLoop n questions \<Longrightarrow> \<exists>q \<in> set questions. textMatches n q"
  by (induction questions) (auto split: if_splits)

lemma similarity_true:
  "checkQuestionSimilarity semantic supabase fingerprint = Returned True \<Longrightarrow>
     similarFound semantic supabase fingerprint"
  unfolding checkQuestionSimilarity_def checkQuestionSimilarity_try_def similarFound_def Let_def
  by (cases "selectAllQuestions supabase")
     (auto split: option.splits dest!: similarityLoop_found intro!: QueryResult.equality)

lemma fallback_true:
  "fallbackQuestionCheck supabase fingerprint = Returned True \<Longrightarrow>
     fallbackFound supabase fingerprint"
  unfolding fallbackQuestionCheck_def fallbackQuestionCheck_try_def fallbackFound_def Let_def
  by (cases "selectTenQuestions supabase")
     (auto split: option.splits dest!: fallbackLoop_found intro!: QueryResult.equality)

lemma similarity_returns: "\<exists>b. checkQuestionSimilarity semantic supabase fingerprint = Returned b"
  by (auto simp: checkQuestionSimilarity_def split: awaited.splits)

lemma fallback_returns: "\<exists>b. fallbackQuestionCheck supabase fingerprint = Returned b"
  by (auto simp: fallbackQuestionCheck_def split: awaited.splits)

text \<open>
  C9. \<^verbatim>\<open>checkQuestionExists\<close> always returns a boolean, whatever the store does:
  it never throws. When the first query throws, or reports an error other than the
  missing fingerprint column, it returns false. It returns true only when the store
  has a row with the fingerprint, or a stored question passes the similarity check,
  or (on the fallback path) a stored question's text matches.
\<close>

theorem checkQuestionExists_total:
  "(\<exists>b. checkQuestionExists semantic supabase fingerprint = Returned b) \<and>
   (queryFailed supabase fingerprint \<longrightarrow>
      checkQuestionExists semantic supabase fingerprint = Returned False) \<and>
   (checkQuestionExists semantic supabase fingerprint = Returned True \<longrightarrow>
      exactMatch supabase fingerprint \<or> similarFound semantic supabase fingerprint \<or>
      fallbackFound supabase fingerprint)"
proof (intro conjI impI)
  show "\<exists>b. checkQuestionExists semantic supabase fingerprint = Returned b"
    using similarity_returns [of semantic supabase fingerprint]
      fallback_returns [of supabase fingerprint]
    by (auto simp: checkQuestionExists_def checkQuestionExists_try_def
        split: awaited.splits option.splits list.splits)
  show "checkQuestionExists semantic supabase fingerprint = Returned False"
    if "queryFailed supabase fingerprint"
    using that
    by (auto simp: queryFailed_def checkQuestionExists_def checkQuestionExists_try_def
        split: awaited.splits option.splits)
  show "exactMatch supabase fingerprint \<or> similarFound semantic supabase fingerprint \<or>
        fallbackFound supabase fingerprint"
    if t: "checkQuestionExists semantic supabase fingerprint = Returned True"
  proof (cases "selectIdByFingerprint supabase fingerprint")
    case Thrown
    with t show ?thesis
      by (simp add: checkQuestionExists_def checkQuestionExists_try_def)
  next
    case (Returned result)
    show ?thesis
    proof (cases "q_error result")
      case (Some e)
      with t Returned have "fallbackQuestionCheck supabase fingerprint = Returned True"
        by (auto simp: checkQuestionExists_def checkQuestionExists_try_def
            split: if_splits awaited.splits)
      then show ?thesis
        by (simp add: fallback_true)
    next
      case None
      show ?thesis
      proof (cases "\<exists>x xs. q_data result = Some (x # xs)")
        case True
        then obtain x xs where "q_data result = Some (x # xs)"
          by blast
        with None have "result = \<lparr>q_data = Some (x # xs), q_error = None\<rparr>"
          by (intro QueryResult.equality) simp_all
        with Returned have "exactMatch supabase fingerprint"
          by (auto simp: exactMatch_def)
        then show ?thesis by simp
      next
        case False
        with t Returned None
        have "checkQuestionSimilarity semantic supabase fingerprint = Returned True"
          by (auto simp: checkQuestionExists_def checkQuestionExists_try_def
              split: option.splits list.splits awaited.splits)
        then show ?thesis
          by (simp add: similarity_true)
      qed
    qed
  qed
qed

theorem checkQuestionExists_total_witness:
  "checkQuestionExists (\<lambda>a b. None) failingStore (js ''who is it|a'') = Returned False \<and>
   (exactMatch matchingStore (js ''who is it|a'') \<or>
    similarFound (\<lambda>a b. None) matchingStore (js ''who is it|a'') \<or>
    fallbackFound matchingStore (js ''who is it|a''))"
proof -
  have f: "queryFailed failingStore (js ''who is it|a'')"
    by (simp add: queryFailed_def failingStore_def missingColumnMessage_def js_def)
  have m: "checkQuestionExists (\<lambda>a b. None) matchingStore (js ''who is it|a'') = Returned True"
    by (simp add: checkQuestionExists_def checkQuestionExists_try_def matchingStore_def)
  note a = checkQuestionExists_total [of "\<lambda>a b. None" failingStore "(js ''who is it|a'')"]
  note b = checkQuestionExists_total [of "\<lambda>a b. None" matchingStore "(js ''who is it|a'')"]
  show ?thesis
    using a [THEN conjunct2, THEN conjunct1, THEN mp, OF f]
          b [THEN conjunct2, THEN conjunct2, THEN mp, OF m]
    by (rule conjI)
qed

subsection \<open>Scoring\<close>

text \<open>
  C4. The interaction of the question records \<^verbatim>\<open>wasCorrect = null\<close> (viewed, not
  answered), five seconds spent, no skip, viewed just now; no topic is known. The claim
  gives the score 0.30 times 0.5 plus no accuracy term, that is 0.15. The function
  tests \<^verbatim>\<open>wasCorrect !== undefined\<close>, which \<^verbatim>\<open>null\<close> passes, and subtracts 0.25:
  its score is -0.1.
\<close>

theorem score_null_answer:
  "calculateQuestionScore 1000 sampleItem (viewedProfile Null 1000) = Inr (- 0.1) \<and>
   score_spec 1000 sampleItem (viewedProfile Null 1000) = 0.15"
  by (simp add: calculateQuestionScore_def score_spec_def sampleItem_def viewedProfile_def
      Let_def topicAffinity_spec_def weightOrDefault_def accuracy_spec_def timeBonus_spec_def
      skipPenalty_spec_def cooldownBonus_spec_def)

text \<open>
  C5, as the claim states it, fails: a question viewed at time 0 scores differently
  at time 0 and one day later, the profile being the same.
\<close>

theorem score_time_counterexample:
  "calculateQuestionScore 0 sampleItem (viewedProfile Undefined 0) \<noteq>
   calculateQuestionScore 86400000 sampleItem (viewedProfile Undefined 0)"
  by (simp add: calculateQuestionScore_def sampleItem_def viewedProfile_def Let_def)

text \<open>
  C5, amended. Two evaluations of the score on the same question and profile at
  different times give the same result when the question has no interaction, and when
  both times are at least five days (432000000 milliseconds) after the interaction
  was viewed, where the cooldown bonus is at its cap.
\<close>

theorem score_time_independence:
  "(interactions p (item_id q) = None \<longrightarrow>
      calculateQuestionScore t1 q p = calculateQuestionScore t2 q p) \<and>
   (\<forall>i. interactions p (item_id q) = Some i \<and> viewedAt i + 432000000 \<le> t1 \<and>
        viewedAt i + 432000000 \<le> t2 \<longrightarrow>
      calculateQuestionScore t1 q p = calculateQuestionScore t2 q p)"
  by (auto simp: calculateQuestionScore_def Let_def min_def split: option.splits)

theorem score_time_independence_witness:
  "calculateQuestionScore 0 sampleItem emptyProfile =
     calculateQuestionScore 86400000 sampleItem emptyProfile \<and>
   calculateQuestionScore 0 sampleItem emptyProfile = Inr 0.3 \<and>
   calculateQuestionScore 432000000 sampleItem (viewedProfile Undefined 0) =
     calculateQuestionScore 864000000 sampleItem (viewedProfile Undefined 0) \<and>
   calculateQuestionScore 432000000 sampleItem (viewedProfile Undefined 0) = Inr 0.65"
proof -
  let ?i = "\<lparr>wasCorrect = Undefined, wasSkipped = False, timeSpent = 5000, viewedAt = 0\<rparr>"
  have n: "interactions emptyProfile (item_id sampleItem) = None"
    by (simp add: emptyProfile_def)
  have i: "interactions (viewedProfile Undefined 0) (item_id sampleItem) = Some ?i"
    by (simp add: viewedProfile_def sampleItem_def)
  have a: "calculateQuestionScore 0 sampleItem emptyProfile =
     calculateQuestionScore 86400000 sampleItem emptyProfile"
    using score_time_independence [of emptyProfile sampleItem 0 86400000] n
    by blast
  have b: "calculateQuestionScore 432000000 sampleItem (viewedProfile Undefined 0) =
     calculateQuestionScore 864000000 sampleItem (viewedProfile Undefined 0)"
    using score_time_independence
      [of "viewedProfile Undefined 0" sampleItem 432000000 864000000] i
    by simp
  have c: "calculateQuestionScore 0 sampleItem emptyProfile = Inr 0.3"
    by (simp add: calculateQuestionScore_def emptyProfile_def sampleItem_def Let_def)
  have d: "calculateQuestionScore 432000000 sampleItem (viewedProfile Undefined 0) = Inr 0.65"
    by (simp add: calculateQuestionScore_def viewedProfile_def sampleItem_def Let_def)
  show ?thesis
    using a c b d by (intro conjI)
qed

subsection \<open>The weight model\<close>

lemma adjust_inRange: "inRange w \<Longrightarrow> inRange (adjust w delta)"
  unfolding inRange_def adjust_def min_def max_def by (cases "0 \<le> delta") auto

lemma inRange_default: "inRange DEFAULT_TOPIC_WEIGHT"
  by (simp add: inRange_def DEFAULT_TOPIC_WEIGHT_def)

text \<open>
  C3. The weight range is an invariant of \<open>applyOutcome\<close>: from a profile in which
  every topic, subtopic and branch weight lies in [0.1, 1.0], every outcome on every
  item gives a profile in which every weight lies in [0.1, 1.0].
\<close>

theorem applyOutcome_weights_in_range:
  assumes "weightsInRange profile"
  shows "weightsInRange (applyOutcome profile item outcome timeSpentMs now)"
proof -
  obtain dt ds db where d: "deltas outcome
      (outcome \<noteq> Skipped \<and> (case interactions profile (item_id item) of
         None \<Rightarrow> False | Some previous \<Rightarrow> wasSkipped previous)) = (dt, ds, db)"
    by (cases "deltas outcome (outcome \<noteq> Skipped \<and> (case interactions profile (item_id item) of
         None \<Rightarrow> False | Some previous \<Rightarrow> wasSkipped previous))") auto
  define tn where "tn = (case topics profile (topic item) of None \<Rightarrow> newRootTopic | Some t \<Rightarrow> t)"
  define sn where "sn = (case subtopics tn (subtopic item) of None \<Rightarrow> newSubTopic | Some s \<Rightarrow> s)"
  define bn where "bn = (case branches sn (branch item) of None \<Rightarrow> newBranch | Some b \<Rightarrow> b)"
  have tn: "rootTopicInRange tn"
    using assms
    by (auto simp: tn_def weightsInRange_def rootTopicInRange_def newRootTopic_def inRange_default
        split: option.splits)
  have sn: "subTopicInRange sn"
    using tn
    by (auto simp: sn_def rootTopicInRange_def subTopicInRange_def newSubTopic_def inRange_default
        split: option.splits)
  have bn: "inRange (weight bn)"
    using sn
    by (auto simp: bn_def subTopicInRange_def newBranch_def inRange_default split: option.splits)
  define bn' where "bn' = bn\<lparr>weight := adjust (weight bn) db, lastViewed := Some now\<rparr>"
  define sn' where "sn' = sn\<lparr>weight := adjust (weight sn) ds, lastViewed := Some now,
      branches := (branches sn)(branch item \<mapsto> bn')\<rparr>"
  define tn' where "tn' = tn\<lparr>weight := adjust (weight tn) dt, lastViewed := Some now,
      subtopics := (subtopics tn)(subtopic item \<mapsto> sn')\<rparr>"
  have bn': "inRange (weight bn')"
    using bn by (simp add: bn'_def adjust_inRange)
  have sn': "subTopicInRange sn'"
    using sn bn' by (auto simp: sn'_def subTopicInRange_def adjust_inRange)
  have tn': "rootTopicInRange tn'"
    using tn sn' by (auto simp: tn'_def rootTopicInRange_def adjust_inRange)
  have "topics (applyOutcome profile item outcome timeSpentMs now) =
          (topics profile)(topic item \<mapsto> tn')"
    by (simp add: applyOutcome_def Let_def d tn'_def sn'_def bn'_def tn_def sn_def bn_def)
  then show ?thesis
    using assms tn' by (auto simp: weightsInRange_def)
qed


theorem applyOutcome_weights_in_range_witness:
  "weightsInRange (applyOutcome (profileAt 0.95 0) sampleItem Correct 5000 1) \<and>
   map_option weight (topics (applyOutcome (profileAt 0.95 0) sampleItem Correct 5000 1) ''Science'')
     = Some 1 \<and>
   weightsInRange (applyOutcome (profileAt 0.12 0) sampleItem Skipped 5000 1) \<and>
   map_option weight (topics (applyOutcome (profileAt 0.12 0) sampleItem Skipped 5000 1) ''Science'')
     = Some 0.1"
proof -
  have r: "weightsInRange (profileAt w 0)" if "inRange w" for w
    using that
    by (auto simp: weightsInRange_def rootTopicInRange_def profileAt_def topicAt_def
        split: if_splits)
  have a: "weightsInRange (profileAt 0.95 0)" and b: "weightsInRange (profileAt 0.12 0)"
    by (rule r, simp add: inRange_def)+
  have c: "map_option weight
      (topics (applyOutcome (profileAt 0.95 0) sampleItem Correct 5000 1) ''Science'') = Some 1"
    by (simp add: applyOutcome_def Let_def profileAt_def topicAt_def sampleItem_def adjust_def
        newSubTopic_def newBranch_def)
  have d: "map_option weight
      (topics (applyOutcome (profileAt 0.12 0) sampleItem Skipped 5000 1) ''Science'') = Some 0.1"
    by (simp add: applyOutcome_def Let_def profileAt_def topicAt_def sampleItem_def adjust_def
        newSubTopic_def newBranch_def)
  show ?thesis
    using applyOutcome_weights_in_range [OF a, of sampleItem Correct 5000 1]
      applyOutcome_weights_in_range [OF b, of sampleItem Skipped 5000 1] c d
    by (intro conjI)
qed

subsection \<open>Conflict resolution\<close>

lemma mergeMaps_idem: "(\<And>x. f x x = x) \<Longrightarrow> mergeMaps f m m = m"
  by (auto simp: mergeMaps_def split: option.splits)

lemma mergeTopics_idem: "mergeTopics ts ts = ts"
  by (simp add: mergeTopics_def mergeRootTopic_def mergeSubTopic_def mergeBranch_def mergeMaps_idem)

lemma leafMax_commute: "leafMax a b = leafMax b a"
  by (auto simp: leafMax_def split: option.splits)

lemma topicWeightOf_merge:
  "topicWeightOf (mergeTopics a b) t = leafMax (topicWeightOf a t) (topicWeightOf b t)"
  by (auto simp: topicWeightOf_def mergeTopics_def mergeMaps_def mergeRootTopic_def leafMax_def
      split: option.splits)

lemma subtopicWeightOf_merge:
  "subtopicWeightOf (mergeTopics a b) t s = leafMax (subtopicWeightOf a t s) (subtopicWeightOf b t s)"
  by (auto simp: subtopicWeightOf_def mergeTopics_def mergeMaps_def mergeRootTopic_def
      mergeSubTopic_def leafMax_def split: option.splits)

lemma branchWeightOf_merge:
  "branchWeightOf (mergeTopics a b) t s br =
     leafMax (branchWeightOf a t s br) (branchWeightOf b t s br)"
  by (auto simp: branchWeightOf_def mergeTopics_def mergeMaps_def mergeRootTopic_def
      mergeSubTopic_def mergeBranch_def leafMax_def split: option.splits)

lemma topics_resolveConflict: "topics (resolveConflict a b v n) = mergeTopics (topics a) (topics b)"
  by (simp add: resolveConflict_def)

lemma interactions_resolveConflict:
  "interactions (resolveConflict a b v n) = interactions b ++ interactions a"
  by (simp add: resolveConflict_def)

text \<open>
  C2, as the claim states it, fails on the interactions. Two profiles hold an
  interaction for the same question, viewed at time 1 in the first and at time 2 in the
  second. Merging the first with the second keeps the first's interaction, the earlier
  one; merging the second with the first keeps the second's. The merge keeps the
  local interaction, not the later one, and the two orders disagree.
\<close>

theorem merge_counterexample:
  "interactions (resolveConflict (profileWith 0.5 (answeredAt True 1))
       (profileWith 0.5 (answeredAt False 2)) 3 9) ''q1'' = Some (answeredAt True 1) \<and>
   interactions (resolveConflict (profileWith 0.5 (answeredAt False 2))
       (profileWith 0.5 (answeredAt True 1)) 3 9) ''q1'' = Some (answeredAt False 2) \<and>
   viewedAt (answeredAt True 1) < viewedAt (answeredAt False 2) \<and>
   answeredAt True 1 \<noteq> answeredAt False 2"
  by (simp add: interactions_resolveConflict profileWith_def answeredAt_def)

text \<open>
  C2, amended. Merging a profile with itself gives back its topics and its
  interactions. Every topic, subtopic and branch weight of a merge is the leaf-wise
  maximum of the two sides, so the weights of merge(A, B) and merge(B, A) are the
  same. The interactions of a merge are keyed by the union of the two key sets, and
  on a shared key the local (first) profile's interaction is kept; merge(A, B) and
  merge(B, A) have the same interactions when the two profiles agree on the keys they
  share.
\<close>

theorem merge_properties:
  "topics (resolveConflict a a v n) = topics a \<and>
   interactions (resolveConflict a a v n) = interactions a \<and>
   topicWeightOf (topics (resolveConflict a b v n)) t =
     leafMax (topicWeightOf (topics a) t) (topicWeightOf (topics b) t) \<and>
   subtopicWeightOf (topics (resolveConflict a b v n)) t s =
     leafMax (subtopicWeightOf (topics a) t s) (subtopicWeightOf (topics b) t s) \<and>
   branchWeightOf (topics (resolveConflict a b v n)) t s br =
     leafMax (branchWeightOf (topics a) t s br) (branchWeightOf (topics b) t s br) \<and>
   topicWeightOf (topics (resolveConflict a b v n)) t =
     topicWeightOf (topics (resolveConflict b a v' n')) t \<and>
   subtopicWeightOf (topics (resolveConflict a b v n)) t s =
     subtopicWeightOf (topics (resolveConflict b a v' n')) t s \<and>
   branchWeightOf (topics (resolveConflict a b v n)) t s br =
     branchWeightOf (topics (resolveConflict b a v' n')) t s br \<and>
   dom (interactions (resolveConflict a b v n)) = dom (interactions a) \<union> dom (interactions b) \<and>
   interactions (resolveConflict a b v n) k =
     (case interactions a k of Some i \<Rightarrow> Some i | None \<Rightarrow> interactions b k) \<and>
   ((\<forall>q i j. interactions a q = Some i \<and> interactions b q = Some j \<longrightarrow> i = j) \<longrightarrow>
      interactions (resolveConflict a b v n) = interactions (resolveConflict b a v' n'))"
proof -
  have comm: "interactions b ++ interactions a = interactions a ++ interactions b"
    if "\<forall>q i j. interactions a q = Some i \<and> interactions b q = Some j \<longrightarrow> i = j"
  proof
    fix q
    show "(interactions b ++ interactions a) q = (interactions a ++ interactions b) q"
      using that by (auto simp: map_add_def split: option.splits)
  qed
  have look: "(interactions b ++ interactions a) k =
      (case interactions a k of Some i \<Rightarrow> Some i | None \<Rightarrow> interactions b k)"
    by (simp add: map_add_def split: option.splits)
  have idem: "interactions a ++ interactions a = interactions a"
    by (rule ext) (simp add: map_add_def split: option.splits)
  show ?thesis
    unfolding topics_resolveConflict interactions_resolveConflict
      topicWeightOf_merge subtopicWeightOf_merge branchWeightOf_merge
    using comm look idem
    by (auto simp: mergeTopics_idem leafMax_commute)
qed


theorem merge_properties_witness:
  "interactions (resolveConflict (profileWith 0.5 (answeredAt True 1))
       (profileWith 0.9 (answeredAt True 1)) 3 9) =
   interactions (resolveConflict (profileWith 0.9 (answeredAt True 1))
       (profileWith 0.5 (answeredAt True 1)) 3 9) \<and>
   topicWeightOf (topics (resolveConflict (profileWith 0.5 (answeredAt True 1))
       (profileWith 0.9 (answeredAt True 1)) 3 9)) ''Science'' = Some 0.9 \<and>
   topicWeightOf (topics (resolveConflict (profileWith 0.9 (answeredAt True 1))
       (profileWith 0.5 (answeredAt True 1)) 3 9)) ''Science'' = Some 0.9"
proof -
  let ?a = "profileWith 0.5 (answeredAt True 1)" and ?b = "profileWith 0.9 (answeredAt True 1)"
  note th = merge_properties [where a = ?a and b = ?b and v = 3 and n = 9 and v' = 3 and n' = 9
      and t = "''Science''"]
  have agree: "\<forall>q i j. interactions ?a q = Some i \<and> interactions ?b q = Some j \<longrightarrow> i = j"
    by (auto simp: profileWith_def split: if_splits)
  have wa: "topicWeightOf (topics ?a) ''Science'' = Some 0.5"
    and wb: "topicWeightOf (topics ?b) ''Science'' = Some 0.9"
    by (simp_all add: topicWeightOf_def profileWith_def profileAt_def topicAt_def)
  have i: "interactions (resolveConflict ?a ?b 3 9) = interactions (resolveConflict ?b ?a 3 9)"
    using th agree by blast
  have w1: "topicWeightOf (topics (resolveConflict ?a ?b 3 9)) ''Science'' = Some 0.9"
    using th [THEN conjunct2, THEN conjunct2, THEN conjunct1, unfolded wa wb]
    by (simp add: leafMax_def)
  have w2: "topicWeightOf (topics (resolveConflict ?b ?a 3 9)) ''Science'' = Some 0.9"
    using th [THEN conjunct2, THEN conjunct2, THEN conjunct2, THEN conjunct2, THEN conjunct2,
        THEN conjunct1] w1
    by simp
  show ?thesis
    using i w1 w2 by (intro conjI)
qed

subsection \<open>The cold-start filter\<close>


text \<open>
  The filter selects Phase 4 by the flag, whatever the number of answers: a profile
  with 3 answers whose cold start is marked complete gets the Phase 4 test, which
  admits a question of the wrong difficulty that the Phase 1 test of the claim
  rejects.
\<close>

lemma steady_state_by_flag:
  "phase_spec 3 = Exploration \<and>
   \<not> feedFilter_spec (progressAt 0.5 3 True 0) {} False sampleItem \<and>
   filterPhase (progressAt 0.5 3 True 0) = Some SteadyState \<and>
   feedFilter (progressAt 0.5 3 True 0) {} False sampleItem"
  by (simp add: feedFilter_def feedFilter_spec_def phase_spec_def filterPhase_def progressAt_def
      isColdStart_def answeredCount_def isLowWeight_def profileAt_def topicAt_def
      sampleItem_def)

text \<open>
  The flag can also go back: \<^verbatim>\<open>loadInitialData\<close> adopts a remote profile that was
  refreshed later, whatever its progress. Here a local profile in the steady state (25
  answers, cold start complete) is replaced by a remote one in the first phase (3
  answers, cold start not complete).
\<close>

lemma adoption_reverts_cold_start:
  "resultingProfile (progressAt 0.5 25 True 10)
     (loadInitialData hadw (Some sampleUser) False (progressAt 0.5 25 True 10)
        (Returned (Some (progressAt 0.5 3 False 20))) True 99) = progressAt 0.5 3 False 20 \<and>
   filterPhase (progressAt 0.5 25 True 10) = Some SteadyState \<and>
   filterPhase (progressAt 0.5 3 False 20) = Some Exploration"
  by (simp add: loadInitialData_def Let_def resultingProfile_def user_id_sampleUser
      filterPhase_def progressAt_def isColdStart_def answeredCount_def profileAt_def)

end
